theory Spec2Isabelle
  imports Main
begin

section \<open>The browser-automation engine\<close>

text \<open>
  The program drives a browser through Puppeteer. The engine is an opaque collaborator:
  its answers are given by a record of oracle functions over an abstract world \<open>'w\<close>.
  Reading calls (\<open>ctx.$(sel)\<close>, \<open>handle.contentFrame()\<close>) answer from the current
  world and leave it as it is; acting calls (click, type, sleep, waits, evaluate, goto)
  move the world with \<open>e_step\<close>. Every call, reading or acting, is appended to the trace
  of the state, so a property can say which calls a function made and in which order.

  A promise either resolves with a value or rejects. Where the source catches the
  rejection (\<open>try { ... } catch {}\<close>, \<open>.catch(() => ...)\<close>) the model takes the default
  the source takes; where it does not, the rejection is the error \<open>EngineError\<close> and
  ends the function as the exception does. The source swallows every rejection of a
  click, of \<open>waitForSelector\<close> and of \<open>waitForNavigation\<close> and uses no result of them,
  so these calls have no outcome in the model. Timing arguments (sleep lengths, typing
  delay, timeouts) are recorded in the trace and may influence \<open>e_step\<close>, but not whether
  a typing call resolves.

  The callbacks run inside the page by \<open>evaluate\<close> are named by the type \<open>script\<close>; what
  they return is the engine's answer. The two callbacks that write a field are modelled
  on a document further below. Console output of debug mode is not modelled; the final
  status line and the exit code are.
\<close>

type_synonym selector = string
type_synonym handle = nat

datatype ctx = Page | Frame nat

datatype 'a promise = Rejected | Resolved 'a

datatype script =
    OverrideDialogs
  | ClickByText string
  | ClickByTextInContext string
  | SetInputByLabel string string
  | SetDnsByHeuristic string string
  | SelectManualOption
  | TitleCheck
  | InvokeApplyConfig
  | ReadDnsValues
  | DumpInputs
  | LabelPresence

datatype call =
    Query ctx selector
  | ContentFrame handle
  | Click handle nat
  | TypeText handle string nat
  | Sleep nat
  | WaitForSelector ctx selector nat
  | Evaluate ctx script
  | Goto string
  | WaitForNavigation nat
  | Screenshot
  | CloseBrowser

datatype error =
    EngineError
  | PasswordFieldNotFound
  | DnsPageNotReached
  | ContentFrameNotFound
  | PrimaryDnsFieldNotLocated
  | SaveButtonNotFound

record 'w engine =
  e_query :: "'w \<Rightarrow> ctx \<Rightarrow> selector \<Rightarrow> handle option promise"
  e_contentFrame :: "'w \<Rightarrow> handle \<Rightarrow> nat option promise"
  e_type :: "'w \<Rightarrow> handle \<Rightarrow> string \<Rightarrow> bool"
  e_goto :: "'w \<Rightarrow> string \<Rightarrow> bool"
  e_evalBool :: "'w \<Rightarrow> ctx \<Rightarrow> script \<Rightarrow> bool promise"
  e_heuristic :: "'w \<Rightarrow> ctx \<Rightarrow> string \<Rightarrow> string \<Rightarrow> (bool \<times> bool) promise"
  e_readDns :: "'w \<Rightarrow> ctx \<Rightarrow> (string \<times> string) promise"
  e_step :: "call \<Rightarrow> 'w \<Rightarrow> 'w"

record 'w st =
  world :: 'w
  trace :: "call list"

text \<open>\<open>try { x = await p } catch {}\<close>: a rejection leaves the default.\<close>

definition caught :: "'a \<Rightarrow> 'a promise \<Rightarrow> 'a" where
  "caught d p = (case p of Rejected \<Rightarrow> d | Resolved x \<Rightarrow> x)"

text \<open>An awaited promise outside any \<open>try\<close>: a rejection is thrown.\<close>

definition await :: "'a promise \<Rightarrow> error + 'a" where
  "await p = (case p of Rejected \<Rightarrow> Inl EngineError | Resolved x \<Rightarrow> Inr x)"

definition andThen ::
  "(error + 'a) \<times> 's \<Rightarrow> ('a \<Rightarrow> 's \<Rightarrow> (error + 'b) \<times> 's) \<Rightarrow> (error + 'b) \<times> 's" where
  "andThen r f = (case r of (Inl e, s) \<Rightarrow> (Inl e, s) | (Inr x, s) \<Rightarrow> f x s)"

definition observe :: "call \<Rightarrow> 'w st \<Rightarrow> 'w st" where
  "observe c s = s\<lparr>trace := trace s @ [c]\<rparr>"

definition perform :: "'w engine \<Rightarrow> call \<Rightarrow> 'w st \<Rightarrow> 'w st" where
  "perform B c s = \<lparr>world = e_step B c (world s), trace = trace s @ [c]\<rparr>"

definition query :: "'w engine \<Rightarrow> ctx \<Rightarrow> selector \<Rightarrow> 'w st \<Rightarrow> handle option promise \<times> 'w st" where
  "query B c sel s = (e_query B (world s) c sel, observe (Query c sel) s)"

definition contentFrame :: "'w engine \<Rightarrow> handle \<Rightarrow> 'w st \<Rightarrow> nat option promise \<times> 'w st" where
  "contentFrame B h s = (e_contentFrame B (world s) h, observe (ContentFrame h) s)"

definition click :: "'w engine \<Rightarrow> handle \<Rightarrow> nat \<Rightarrow> 'w st \<Rightarrow> 'w st" where
  "click B el n s = perform B (Click el n) s"

definition typeText :: "'w engine \<Rightarrow> handle \<Rightarrow> string \<Rightarrow> nat \<Rightarrow> 'w st \<Rightarrow> (error + unit) \<times> 'w st" where
  "typeText B el v d s =
     ((if e_type B (world s) el v then Inr () else Inl EngineError), perform B (TypeText el v d) s)"

definition sleep :: "'w engine \<Rightarrow> nat \<Rightarrow> 'w st \<Rightarrow> 'w st" where
  "sleep B ms s = perform B (Sleep ms) s"

section \<open>Selector cascades of src/index.js\<close>

definition frameSelectors :: "selector list" where
  \<open>frameSelectors =
     [''iframe#menuIframe'', ''iframe[src*="dhcp"]'', ''iframe[src*="bbsp"]'',
      ''iframe[src*="lan"]'', ''iframe'']\<close>

fun getContentFrame_loop :: "'w engine \<Rightarrow> ctx \<Rightarrow> selector list \<Rightarrow> 'w st \<Rightarrow> ctx option \<times> 'w st" where
  "getContentFrame_loop B page [] s = (None, s)"
| "getContentFrame_loop B page (sel # selectors) s =
     (let (r, s1) = query B page sel s in
      case caught None r of
        None \<Rightarrow> getContentFrame_loop B page selectors s1
      | Some h \<Rightarrow>
          (let (f, s2) = contentFrame B h s1 in
           case caught None f of
             Some fr \<Rightarrow> (Some (Frame fr), s2)
           | None \<Rightarrow> getContentFrame_loop B page selectors s2))"

definition getContentFrame :: "'w engine \<Rightarrow> ctx \<Rightarrow> 'w st \<Rightarrow> ctx option \<times> 'w st" where
  "getContentFrame B page s = getContentFrame_loop B page frameSelectors s"

fun waitAndTypeFirst ::
  "'w engine \<Rightarrow> ctx \<Rightarrow> selector list \<Rightarrow> string \<Rightarrow> 'w st \<Rightarrow> (error + bool) \<times> 'w st" where
  "waitAndTypeFirst B page [] v s = (Inr False, s)"
| "waitAndTypeFirst B page (sel # selectors) v s =
     (let (r, s1) = query B page sel s in
      case caught None r of
        Some el \<Rightarrow>
          (let s2 = click B el 3 s1 in
           andThen (typeText B el v 10 s2) (\<lambda>_ s3. (Inr True, s3)))
      | None \<Rightarrow> waitAndTypeFirst B page selectors v s1)"

fun clickFirst :: "'w engine \<Rightarrow> ctx \<Rightarrow> selector list \<Rightarrow> bool \<Rightarrow> 'w st \<Rightarrow> bool \<times> 'w st" where
  "clickFirst B page [] wait s = (False, s)"
| "clickFirst B page (sel # selectors) wait s =
     (let (r, s1) = query B page sel s in
      case caught None r of
        Some el \<Rightarrow>
          (let s2 = click B el 1 s1;
               s3 = (if wait then sleep B 300 s2 else s2)
           in (True, s3))
      | None \<Rightarrow> clickFirst B page selectors wait s1)"

section \<open>Selector cascades of src/unnamed/part_000\<close>

text \<open>
  The earlier version of the two helpers. Its \<open>waitAndTypeFirst\<close> awaits \<open>page.$(sel)\<close>
  outside any \<open>try\<close>; its \<open>clickFirst\<close> skips a selector whose query rejects, and with
  \<open>wait\<close> starts the click and a 400 ms timer together (\<open>Promise.all\<close>), recorded here
  as the click followed by the sleep.
\<close>

fun waitAndTypeFirst_part000 ::
  "'w engine \<Rightarrow> ctx \<Rightarrow> selector list \<Rightarrow> string \<Rightarrow> 'w st \<Rightarrow> (error + bool) \<times> 'w st" where
  "waitAndTypeFirst_part000 B page [] v s = (Inr False, s)"
| "waitAndTypeFirst_part000 B page (sel # selectors) v s =
     (let (r, s1) = query B page sel s in
      andThen (await r, s1) (\<lambda>el s1.
        case el of
          Some el \<Rightarrow>
            (let s2 = click B el 3 s1 in
             andThen (typeText B el v 20 s2) (\<lambda>_ s3. (Inr True, s3)))
        | None \<Rightarrow> waitAndTypeFirst_part000 B page selectors v s1))"

fun clickFirst_part000 :: "'w engine \<Rightarrow> ctx \<Rightarrow> selector list \<Rightarrow> bool \<Rightarrow> 'w st \<Rightarrow> bool \<times> 'w st" where
  "clickFirst_part000 B page [] wait s = (False, s)"
| "clickFirst_part000 B page (sel # selectors) wait s =
     (let (r, s1) = query B page sel s in
      case r of
        Rejected \<Rightarrow> clickFirst_part000 B page selectors wait s1
      | Resolved el \<Rightarrow>
          (case el of
             Some el \<Rightarrow>
               (let s2 = (if wait then sleep B 400 (click B el 1 s1) else click B el 1 s1)
                in (True, s2))
           | None \<Rightarrow> clickFirst_part000 B page selectors wait s1))"

section \<open>Strings\<close>

text \<open>
  A JavaScript string is modelled as a \<open>string\<close>, one \<open>char\<close> per UTF-16 code unit below
  256 (Latin-1). \<open>toLowerCase\<close> maps A-Z and the Latin-1 capitals; \<open>trim\<close> strips the
  white space of that range; the empty string is the only falsy string.
\<close>

definition lowerChar :: "char \<Rightarrow> char" where
  "lowerChar c =
     (let n = (of_char c :: nat) in
      if (65 \<le> n \<and> n \<le> 90) \<or> (192 \<le> n \<and> n \<le> 222 \<and> n \<noteq> 215) then char_of (n + 32) else c)"

definition toLowerCase :: "string \<Rightarrow> string" where
  "toLowerCase t = map lowerChar t"

definition isSpace :: "char \<Rightarrow> bool" where
  "isSpace c = (let n = (of_char c :: nat) in (9 \<le> n \<and> n \<le> 13) \<or> n = 32 \<or> n = 160)"

definition trim :: "string \<Rightarrow> string" where
  "trim t = rev (dropWhile isSpace (rev (dropWhile isSpace t)))"

fun startsWith :: "string \<Rightarrow> string \<Rightarrow> bool" where
  "startsWith t [] = True"
| "startsWith [] (n # ns) = False"
| "startsWith (c # cs) (n # ns) = (c = n \<and> startsWith cs ns)"

fun str_includes :: "string \<Rightarrow> string \<Rightarrow> bool" where
  "str_includes [] n = (n = [])"
| "str_includes (c # cs) n = (startsWith (c # cs) n \<or> str_includes cs n)"

section \<open>Selector tables (SELECTORS)\<close>

definition username :: "selector list" where
  \<open>username =
     [''input[name="Username"]'', ''input[name="username"]'', ''input#userName'',
      ''input#Username'', ''input#txt_Username'', ''input[name="usr"]'',
      ''input[type="text"][name="user"]'']\<close>

definition password :: "selector list" where
  \<open>password =
     [''input[name="Password"]'', ''input[name="password"]'', ''input#Password'',
      ''input#txt_Password'', ''input[type="password"]'']\<close>

definition loginButtons :: "selector list" where
  \<open>loginButtons =
     [''button#loginBtn'', ''button#btn_Login'', ''button[type="submit"]'',
      ''input[type="submit"]'', ''input#login'', ''button[name="login"]'',
      ''button[onclick*="login"]'']\<close>

definition primaryDns :: "selector list" where
  \<open>primaryDns =
     [''input#dnsMainPri'', ''input[name="dnsMainPri"]'', ''input[id*="dnsMainPri" i]'',
      ''input[id*="dnspri" i]'', ''input[name*="dnspri" i]'', ''input#PrimaryDNSServer'',
      ''input[name="PrimaryDNSServer"]'', ''input#primary_dns'', ''input[name="primary_dns"]'',
      ''input[name="dns1"]'', ''input#dns1'', ''input[id*="primary" i]'',
      ''input[name*="primary" i]'']\<close>

definition secondaryDns :: "selector list" where
  \<open>secondaryDns =
     [''input#dnsMainSec'', ''input[name="dnsMainSec"]'', ''input[id*="dnsMainSec" i]'',
      ''input[id*="dnssec" i]'', ''input[name*="dnssec" i]'', ''input#SecondaryDNSServer'',
      ''input[name="SecondaryDNSServer"]'', ''input#secondary_dns'',
      ''input[name="secondary_dns"]'', ''input[name="dns2"]'', ''input#dns2'',
      ''input[id*="secondary" i]'', ''input[name*="secondary" i]'']\<close>

definition manualDnsToggles :: "selector list" where
  \<open>manualDnsToggles =
     [''input[type="radio"][value="manual"]'', ''input[type="checkbox"][name*="manual"]'',
      ''select[name*="dnsMode"]'', ''select[name*="dns_mode"]'', ''select#dns_mode'']\<close>

definition saveButtons :: "selector list" where
  \<open>saveButtons =
     [''button#btnApply_ex'', ''button[name="btnApply_ex"]'', ''button#btnApply'',
      ''button#btn_save'', ''input[type="submit"]'', ''button[type="submit"]'']\<close>

section \<open>Text matching and label writing through evaluate\<close>

definition evaluateBool :: "'w engine \<Rightarrow> ctx \<Rightarrow> script \<Rightarrow> 'w st \<Rightarrow> bool promise \<times> 'w st" where
  "evaluateBool B c sc s = (e_evalBool B (world s) c sc, perform B (Evaluate c sc) s)"

definition clickByText :: "'w engine \<Rightarrow> ctx \<Rightarrow> string \<Rightarrow> 'w st \<Rightarrow> (error + bool) \<times> 'w st" where
  "clickByText B page t s =
     (let (r, s1) = evaluateBool B page (ClickByText t) s in
      andThen (await r, s1) (\<lambda>clicked s2.
        if clicked then (Inr True, sleep B 300 s2) else (Inr False, s2)))"

definition clickByTextInContext :: "'w engine \<Rightarrow> ctx \<Rightarrow> string \<Rightarrow> 'w st \<Rightarrow> bool \<times> 'w st" where
  "clickByTextInContext B c t s =
     (let needle = toLowerCase t;
          (r, s1) = evaluateBool B c (ClickByTextInContext needle) s
      in if caught False r then (True, sleep B 300 s1) else (False, s1))"

definition setInputByLabel ::
  "'w engine \<Rightarrow> ctx \<Rightarrow> string \<Rightarrow> string \<Rightarrow> 'w st \<Rightarrow> (error + bool) \<times> 'w st" where
  "setInputByLabel B page labelText v s =
     (let (r, s1) = evaluateBool B page (SetInputByLabel labelText v) s in (await r, s1))"

definition setDnsByHeuristic ::
  "'w engine \<Rightarrow> ctx \<Rightarrow> string \<Rightarrow> string \<Rightarrow> 'w st \<Rightarrow> (bool \<times> bool) \<times> 'w st" where
  "setDnsByHeuristic B c d1 d2 s =
     (caught (False, d2 = []) (e_heuristic B (world s) c d1 d2),
      perform B (Evaluate c (SetDnsByHeuristic d1 d2)) s)"

section \<open>ensureManualDns\<close>

fun ensureManualDns_toggles :: "'w engine \<Rightarrow> ctx \<Rightarrow> selector list \<Rightarrow> 'w st \<Rightarrow> bool \<times> 'w st" where
  "ensureManualDns_toggles B page [] s = (False, s)"
| "ensureManualDns_toggles B page (sel # selectors) s =
     (let (r, s1) = query B page sel s in
      case caught None r of
        Some el \<Rightarrow> (True, click B el 1 s1)
      | None \<Rightarrow> ensureManualDns_toggles B page selectors s1)"

definition estatico :: string where
  "estatico = ''Est'' @ [CHR 0xE1] @ ''tico''"

definition ensureManualDns :: "'w engine \<Rightarrow> ctx \<Rightarrow> 'w st \<Rightarrow> (error + bool) \<times> 'w st" where
  "ensureManualDns B page s =
     (let (r, s1) = query B page ''select'' s in
      andThen
        (case caught None r of
           Some sel \<Rightarrow> (let (h, s2) = evaluateBool B page SelectManualOption s1 in (await h, s2))
         | None \<Rightarrow> (Inr False, s1))
        (\<lambda>handled s2.
           if handled then (Inr True, s2)
           else
             (let (found, s3) = ensureManualDns_toggles B page manualDnsToggles s2 in
              if found then (Inr True, s3)
              else
                andThen (clickByText B page ''Manual'' s3) (\<lambda>ok s4.
                  if ok then (Inr True, s4)
                  else andThen (clickByText B page estatico s4) (\<lambda>ok s5. (Inr ok, s5))))))"

section \<open>navigateToDns\<close>

text \<open>
  One menu transition: the element with the fixed id when \<open>page.$\<close> finds it (its click
  may fail silently), else \<open>clickByText\<close> with the label. \<open>False\<close> is the source's
  \<open>return null\<close>.
\<close>

definition clickMenu ::
  "'w engine \<Rightarrow> ctx \<Rightarrow> selector \<Rightarrow> string \<Rightarrow> 'w st \<Rightarrow> (error + bool) \<times> 'w st" where
  "clickMenu B page fixedId label s =
     (let (r, s1) = query B page fixedId s in
      case caught None r of
        Some el \<Rightarrow> (Inr True, click B el 1 s1)
      | None \<Rightarrow> clickByText B page label s1)"

definition navigateToDns ::
  "'w engine \<Rightarrow> ctx \<Rightarrow> bool \<Rightarrow> 'w st \<Rightarrow> (error + string option) \<times> 'w st" where
  "navigateToDns B page dbg s =
     andThen (clickMenu B page ''#addconfig'' ''Advanced Configuration'' s) (\<lambda>ok s1.
       if \<not> ok then (Inr None, s1)
       else
         andThen (clickMenu B page ''#lanconfig'' ''LAN'' (sleep B 400 s1)) (\<lambda>ok s2.
           if \<not> ok then (Inr None, s2)
           else
             andThen
               (clickMenu B page ''#landhcp'' ''DHCP Server''
                  (sleep B 200 (perform B (WaitForSelector page ''#lanconfig_menu'' 3000) s2)))
               (\<lambda>ok s3.
                  if \<not> ok then (Inr None, s3)
                  else
                    (let (frame, s4) = getContentFrame B page s3 in
                     case frame of
                       None \<Rightarrow> (Inr None, s4)
                     | Some fr \<Rightarrow>
                         (let s5 = perform B (WaitForSelector fr ''#dhcp2title'' 8000) s4;
                              (t, s6) = evaluateBool B fr TitleCheck s5;
                              okTitle = caught False t
                          in (Inr (Some (if okTitle then ''iframe-dhcp''
                                         else ''iframe-dhcp-no-title'')), s6))))))"

section \<open>setDnsValues\<close>

definition primaryLabels :: "string list" where
  "primaryLabels =
     [''Primary DNS Server'', ''Primary DNS'', ''Servidor DNS prim'' @ [CHR 0xE1] @ ''rio'',
      ''Preferred DNS'']"

definition secondaryLabels :: "string list" where
  "secondaryLabels =
     [''Secondary DNS Server'', ''Secondary DNS'', ''Servidor DNS secund'' @ [CHR 0xE1] @ ''rio'',
      ''Alternate DNS'']"

text \<open>The chain \<open>await setInputByLabel(..) || await setInputByLabel(..) || ...\<close>.\<close>

fun setInputByLabel_chain ::
  "'w engine \<Rightarrow> ctx \<Rightarrow> string list \<Rightarrow> string \<Rightarrow> 'w st \<Rightarrow> (error + bool) \<times> 'w st" where
  "setInputByLabel_chain B frame [] v s = (Inr False, s)"
| "setInputByLabel_chain B frame (l # ls) v s =
     andThen (setInputByLabel B frame l v s) (\<lambda>ok s1.
       if ok then (Inr True, s1) else setInputByLabel_chain B frame ls v s1)"

text \<open>Tier 1 (lines 433-436): the selector cascades.\<close>

definition dnsTier1 ::
  "'w engine \<Rightarrow> ctx \<Rightarrow> string \<Rightarrow> string \<Rightarrow> 'w st \<Rightarrow> (error + bool \<times> bool) \<times> 'w st" where
  "dnsTier1 B frame d1 d2 s =
     andThen (waitAndTypeFirst B frame primaryDns d1 s) (\<lambda>ok1 s1.
       andThen (if d2 \<noteq> [] then waitAndTypeFirst B frame secondaryDns d2 s1 else (Inr True, s1))
         (\<lambda>ok2 s2. (Inr (ok1, ok2), s2)))"

text \<open>Tier 2 (lines 439-451): the label-based fallback, per field.\<close>

definition dnsTier2 ::
  "'w engine \<Rightarrow> ctx \<Rightarrow> string \<Rightarrow> string \<Rightarrow> bool \<Rightarrow> bool \<Rightarrow> 'w st \<Rightarrow> (error + bool \<times> bool) \<times> 'w st" where
  "dnsTier2 B frame d1 d2 ok1 ok2 s =
     andThen (if \<not> ok1 then setInputByLabel_chain B frame primaryLabels d1 s else (Inr ok1, s))
       (\<lambda>ok1' s1.
          andThen
            (if \<not> ok2 \<and> d2 \<noteq> [] then setInputByLabel_chain B frame secondaryLabels d2 s1
             else (Inr ok2, s1))
            (\<lambda>ok2' s2. (Inr (ok1', ok2'), s2)))"

text \<open>Tier 3 (lines 453-457): the heuristic scan, which writes both fields.\<close>

definition dnsTier3 ::
  "'w engine \<Rightarrow> ctx \<Rightarrow> string \<Rightarrow> string \<Rightarrow> bool \<Rightarrow> bool \<Rightarrow> 'w st \<Rightarrow> (bool \<times> bool) \<times> 'w st" where
  "dnsTier3 B frame d1 d2 ok1 ok2 s =
     (if \<not> ok1 \<or> (d2 \<noteq> [] \<and> \<not> ok2) then
        (let ((h1, h2), s1) = setDnsByHeuristic B frame d1 d2 s
         in ((ok1 \<or> h1, ok2 \<or> h2), s1))
      else ((ok1, ok2), s))"

definition setDnsValues_tiers ::
  "'w engine \<Rightarrow> ctx \<Rightarrow> string \<Rightarrow> string \<Rightarrow> 'w st \<Rightarrow> (error + bool \<times> bool) \<times> 'w st" where
  "setDnsValues_tiers B frame d1 d2 s =
     andThen (dnsTier1 B frame d1 d2 s) (\<lambda>(ok1, ok2) s1.
       andThen (dnsTier2 B frame d1 d2 ok1 ok2 s1) (\<lambda>(ok1', ok2') s2.
         (let (r, s3) = dnsTier3 B frame d1 d2 ok1' ok2' s2 in (Inr r, s3))))"

definition setDnsValues ::
  "'w engine \<Rightarrow> ctx \<Rightarrow> string \<Rightarrow> string \<Rightarrow> bool \<Rightarrow> 'w st \<Rightarrow> (error + unit) \<times> 'w st" where
  "setDnsValues B page d1 d2 dbg s =
     (let (frame, s1) = getContentFrame B page s in
      case frame of
        None \<Rightarrow> (Inl ContentFrameNotFound, s1)
      | Some fr \<Rightarrow>
          (let s2 = snd (ensureManualDns B fr s1);
               s3 = sleep B 300 s2
           in andThen (setDnsValues_tiers B fr d1 d2 s3) (\<lambda>(ok1, ok2) s4.
                andThen
                  (if dbg \<and> (\<not> ok1 \<or> (d2 \<noteq> [] \<and> \<not> ok2))
                   then (let (r, s5) = evaluateBool B fr DumpInputs s4 in (await r, s5))
                   else (Inr True, s4))
                  (\<lambda>_ s5.
                     if \<not> ok1 then (Inl PrimaryDnsFieldNotLocated, s5) else (Inr (), s5)))))"

section \<open>saveChanges\<close>

definition applyWords :: "string list" where
  "applyWords = [''Apply'', ''Save'', ''Guardar'', ''Aplicar'', ''Submit'', ''OK'']"

text \<open>The six lines \<open>if (await clickByTextInContext(ctx, w)) { await sleep(300); return true; }\<close>.\<close>

fun clickByTextInContext_chain :: "'w engine \<Rightarrow> ctx \<Rightarrow> string list \<Rightarrow> 'w st \<Rightarrow> bool \<times> 'w st" where
  "clickByTextInContext_chain B c [] s = (False, s)"
| "clickByTextInContext_chain B c (w # ws) s =
     (let (ok, s1) = clickByTextInContext B c w s in
      if ok then (True, sleep B 300 s1) else clickByTextInContext_chain B c ws s1)"

definition saveChanges :: "'w engine \<Rightarrow> ctx \<Rightarrow> 'w st \<Rightarrow> bool \<times> 'w st" where
  "saveChanges B c s =
     (let s1 = perform B (Evaluate c OverrideDialogs) s;
          (r, s2) = query B c ''#btnApply_ex'' s1
      in case caught None r of
           Some applyBtn \<Rightarrow> (True, sleep B 300 (click B applyBtn 1 s2))
         | None \<Rightarrow>
             (let (ok, s3) = clickFirst B c saveButtons True s2 in
              if ok then (True, sleep B 300 s3)
              else
                (let (ok', s4) = clickByTextInContext_chain B c applyWords s3 in
                 if ok' then (True, s4)
                 else
                   (let (i, s5) = evaluateBool B c InvokeApplyConfig s4 in
                    if caught False i then (True, sleep B 300 s5) else (False, s5)))))"

section \<open>verifyDnsApplied\<close>

definition readDnsValuesFromFrame :: "'w engine \<Rightarrow> ctx \<Rightarrow> 'w st \<Rightarrow> (string \<times> string) \<times> 'w st" where
  "readDnsValuesFromFrame B frame s =
     (caught ([], []) (e_readDns B (world s) frame), perform B (Evaluate frame ReadDnsValues) s)"

text \<open>
  The \<open>for\<close> loop of \<open>verifyDnsApplied\<close> from index \<open>i\<close>. \<open>retries\<close> and \<open>i\<close>
  are integers: \<open>retries - 2\<close> is negative for fewer than two retries, and then no
  index equals it. \<open>break\<close> on a missing frame leaves the loop for \<open>return false\<close>;
  an error of the navigation is swallowed by its \<open>try\<close>.
\<close>

function verifyDnsApplied_loop ::
  "'w engine \<Rightarrow> ctx \<Rightarrow> string \<Rightarrow> string \<Rightarrow> int \<Rightarrow> nat \<Rightarrow> int \<Rightarrow> 'w st \<Rightarrow> bool \<times> 'w st" where
  "verifyDnsApplied_loop B page expected1 expected2 retries delayMs i s =
     (if i < retries then
        (let (frame, s1) = getContentFrame B page s in
         case frame of
           None \<Rightarrow> (False, s1)
         | Some fr \<Rightarrow>
             (let ((primary, secondary), s2) = readDnsValuesFromFrame B fr s1;
                  ok1 = (primary = expected1);
                  ok2 = (expected2 = [] \<or> secondary = expected2)
              in if ok1 \<and> ok2 then (True, s2)
                 else
                   (let s3 = sleep B delayMs s2;
                        s4 = (if i = retries - 2 then snd (navigateToDns B page False s3) else s3)
                    in verifyDnsApplied_loop B page expected1 expected2 retries delayMs (i + 1) s4)))
      else (False, s))"
  by pat_completeness auto
termination
  by (relation "measure (\<lambda>(B, page, e1, e2, retries, delayMs, i, s). nat (retries - i))") auto

definition verifyDnsApplied ::
  "'w engine \<Rightarrow> ctx \<Rightarrow> string \<Rightarrow> string \<Rightarrow> int \<Rightarrow> nat \<Rightarrow> 'w st \<Rightarrow> bool \<times> 'w st" where
  "verifyDnsApplied B page expected1 expected2 retries delayMs s =
     verifyDnsApplied_loop B page expected1 expected2 retries delayMs 0 s"

section \<open>The run\<close>

text \<open>
  The body of the top-level async function from its \<open>try\<close> on (browser launch and the
  dialog hooks before it are process set-up). \<open>main_login\<close> is lines 620-649,
  \<open>main_configure\<close> lines 651-663 (it returns \<open>saved\<close>), \<open>main_after_save\<close> lines 665-696;
  \<open>main\<close> adds the \<open>catch\<close> and \<open>finally\<close> blocks and returns the status line and the
  exit code.
\<close>

record args =
  a_url :: string
  a_user :: string
  a_pass :: string
  a_dns1 :: string
  a_dns2 :: string
  a_headful :: bool
  a_debug :: bool

datatype status = Updated string string | Failed error

definition loginTexts :: "string list" where
  "loginTexts =
     [''Log In'', ''Login'', ''Entrar'', ''Iniciar sess'' @ [CHR 0xE3] @ ''o'',
      ''Iniciar sesi'' @ [CHR 0xF3] @ ''n'']"

fun clickByText_chain :: "'w engine \<Rightarrow> ctx \<Rightarrow> string list \<Rightarrow> 'w st \<Rightarrow> (error + bool) \<times> 'w st" where
  "clickByText_chain B page [] s = (Inr False, s)"
| "clickByText_chain B page (t # ts) s =
     andThen (clickByText B page t s) (\<lambda>ok s1.
       if ok then (Inr True, s1) else clickByText_chain B page ts s1)"

definition goto :: "'w engine \<Rightarrow> string \<Rightarrow> 'w st \<Rightarrow> (error + unit) \<times> 'w st" where
  "goto B u s =
     ((if e_goto B (world s) u then Inr () else Inl EngineError), perform B (Goto u) s)"

definition main_login :: "'w engine \<Rightarrow> args \<Rightarrow> 'w st \<Rightarrow> (error + unit) \<times> 'w st" where
  "main_login B a s =
     andThen (goto B (a_url a) s) (\<lambda>_ s1.
       andThen (waitAndTypeFirst B Page username (a_user a) s1) (\<lambda>usernameTyped s2.
         andThen (waitAndTypeFirst B Page password (a_pass a) s2) (\<lambda>passwordTyped s3.
           if \<not> passwordTyped then (Inl PasswordFieldNotFound, s3)
           else
             andThen
               (let (c, s4) = clickFirst B Page loginButtons True s3 in
                if c then (Inr True, s4) else clickByText_chain B Page loginTexts s4)
               (\<lambda>clickedLogin s5.
                  (Inr (), sleep B 600 (perform B (WaitForNavigation 15000) s5))))))"

definition main_configure :: "'w engine \<Rightarrow> args \<Rightarrow> 'w st \<Rightarrow> (error + bool) \<times> 'w st" where
  "main_configure B a s =
     andThen (navigateToDns B Page (a_debug a) s) (\<lambda>pathReached s1.
       if pathReached = None \<or> pathReached = Some [] then (Inl DnsPageNotReached, s1)
       else
         (let s2 = (if a_debug a then snd (getContentFrame B Page s1) else s1) in
          andThen (setDnsValues B Page (a_dns1 a) (a_dns2 a) (a_debug a) s2) (\<lambda>_ s3.
            (let (cf, s4) = getContentFrame B Page s3;
                 (saved, s5) = saveChanges B (case cf of Some f \<Rightarrow> f | None \<Rightarrow> Page) s4
             in (Inr saved, s5)))))"

definition main_after_save :: "'w engine \<Rightarrow> args \<Rightarrow> bool \<Rightarrow> 'w st \<Rightarrow> (error + unit) \<times> 'w st" where
  "main_after_save B a saved s =
     (let s1 = sleep B 900 s;
          (verified, s2) = verifyDnsApplied B Page (a_dns1 a) (a_dns2 a) 4 800 s1;
          s3 = (if a_debug a then
                  (let (cf, s') = getContentFrame B Page s2 in
                   case cf of
                     Some f \<Rightarrow> perform B (Evaluate f LabelPresence) s'
                   | None \<Rightarrow> s')
                else s2)
      in if \<not> saved then (Inl SaveButtonNotFound, s3) else (Inr (), sleep B 600 s3))"

definition main :: "'w engine \<Rightarrow> args \<Rightarrow> 'w st \<Rightarrow> (status \<times> nat) \<times> 'w st" where
  "main B a s =
     (case andThen (andThen (main_login B a s) (\<lambda>_. main_configure B a)) (main_after_save B a) of
        (Inr _, s1) \<Rightarrow> ((Updated (a_dns1 a) (a_dns2 a), 0), perform B CloseBrowser s1)
      | (Inl e, s1) \<Rightarrow>
          ((Failed e, 1),
           perform B CloseBrowser (if a_debug a then perform B Screenshot s1 else s1)))"

section \<open>The callbacks that write a field, on the document\<close>

text \<open>
  What the callbacks of \<open>setDnsByHeuristic\<close> and \<open>setInputByLabel\<close> do inside the browser.
  An element reference is an index into the document's element list. Every element
  carries a log, as a listener on it would keep, of each \<open>focus()\<close> and each dispatched
  event together with the element's value at that moment. A label records what the DOM
  answers for it: its text, its \<open>for\<close> attribute, \<open>l.querySelector("input")\<close>, and
  \<open>l.parentElement\<close> with its \<open>querySelector("input")\<close>. Attribute selectors on
  \<open>type\<close> compare the attribute without regard to case, as HTML documents do.

  Assigning \<open>el.value\<close> on an input runs the browser's value sanitisation for the
  input's type. It is modelled for the types \<open>text\<close>, \<open>search\<close>, \<open>tel\<close>, \<open>password\<close>
  (line breaks removed), \<open>url\<close>, \<open>email\<close> (also trimmed) and \<open>number\<close> (emptied
  unless a valid floating-point number), an absent or unknown type being \<open>text\<close>. The
  inputs the heuristic scan writes to are all of these types. The label writer can reach
  any element: for the button-like, checkbox, radio and hidden types and for an element
  without a value of its own the string is stored as given, as the browser does; the date
  and time types, \<open>range\<close>, \<open>color\<close>, \<open>file\<close>, and the elements \<open>select\<close> and
  \<open>textarea\<close> have rules of their own, which are outside this model.
\<close>

datatype notification = Focus | InputEvent | ChangeEvent

record element =
  el_tag :: string
  el_type :: "string option"
  el_id :: string
  el_name :: string
  el_className :: string
  el_value :: string
  el_log :: "(notification \<times> string) list"

record label =
  l_textContent :: string
  l_for :: "string option"
  l_input :: "nat option"
  l_parentInput :: "nat option option"

record document =
  d_elements :: "element list"
  d_labels :: "label list"

definition inputTypes :: "string list" where
  "inputTypes =
     [''hidden'', ''text'', ''search'', ''tel'', ''url'', ''email'', ''password'', ''date'',
      ''month'', ''week'', ''time'', ''datetime-local'', ''number'', ''range'', ''color'',
      ''checkbox'', ''radio'', ''file'', ''submit'', ''image'', ''reset'', ''button'']"

definition inputType :: "element \<Rightarrow> string" where
  "inputType el =
     (case el_type el of
        None \<Rightarrow> ''text''
      | Some t \<Rightarrow> if toLowerCase t \<in> set inputTypes then toLowerCase t else ''text'')"

definition isDigit :: "char \<Rightarrow> bool" where
  "isDigit c = (let n = (of_char c :: nat) in 48 \<le> n \<and> n \<le> 57)"

definition asciiSpace :: "char \<Rightarrow> bool" where
  "asciiSpace c = (let n = (of_char c :: nat) in n = 9 \<or> n = 10 \<or> n = 12 \<or> n = 13 \<or> n = 32)"

definition lineBreak :: "char \<Rightarrow> bool" where
  "lineBreak c = (let n = (of_char c :: nat) in n = 10 \<or> n = 13)"

text \<open>
  A valid floating-point number: an optional minus, digits with an optional fraction or
  a fraction alone, and an optional exponent.
\<close>

definition validFloat :: "string \<Rightarrow> bool" where
  "validFloat v =
     (let r0 = (case v of [] \<Rightarrow> [] | c # r \<Rightarrow> if c = CHR ''-'' then r else v);
          ip = takeWhile isDigit r0;
          r1 = dropWhile isDigit r0;
          mantissa =
            (case r1 of
               [] \<Rightarrow> ip \<noteq> []
             | c # r \<Rightarrow> if c = CHR ''.'' then takeWhile isDigit r \<noteq> [] else ip \<noteq> []);
          r2 = (case r1 of
                  [] \<Rightarrow> []
                | c # r \<Rightarrow> if c = CHR ''.'' then dropWhile isDigit r else r1)
      in mantissa \<and>
         (case r2 of
            [] \<Rightarrow> True
          | c # r \<Rightarrow>
              (c = CHR ''e'' \<or> c = CHR ''E'') \<and>
              (let r3 = (case r of
                           [] \<Rightarrow> []
                         | g # r' \<Rightarrow> if g = CHR ''-'' \<or> g = CHR ''+'' then r' else r)
               in r3 \<noteq> [] \<and> list_all isDigit r3)))"

definition sanitize :: "element \<Rightarrow> string \<Rightarrow> string" where
  "sanitize el v =
     (if el_tag el \<noteq> ''input'' then v
      else if inputType el \<in> {''text'', ''search'', ''tel'', ''password''}
        then filter (\<lambda>c. \<not> lineBreak c) v
      else if inputType el \<in> {''url'', ''email''}
        then rev (dropWhile asciiSpace (rev (dropWhile asciiSpace (filter (\<lambda>c. \<not> lineBreak c) v))))
      else if inputType el = ''number'' then (if validFloat v then v else [])
      else v)"

text \<open>The assignment \<open>el.value = v\<close>.\<close>

definition assign :: "string \<Rightarrow> element \<Rightarrow> element" where
  "assign v el = el\<lparr>el_value := sanitize el v\<rparr>"

definition notify :: "notification \<Rightarrow> element \<Rightarrow> element" where
  "notify n el = el\<lparr>el_log := el_log el @ [(n, el_value el)]\<rparr>"

definition updateElement :: "nat \<Rightarrow> (element \<Rightarrow> element) \<Rightarrow> document \<Rightarrow> document" where
  "updateElement i f d = d\<lparr>d_elements := (d_elements d)[i := f (d_elements d ! i)]\<rparr>"

definition getElementById :: "document \<Rightarrow> string \<Rightarrow> nat option" where
  "getElementById d ident =
     List.find (\<lambda>i. el_id (d_elements d ! i) = ident) [0..<length (d_elements d)]"

text \<open>\<open>setVal\<close> of \<open>setDnsByHeuristic\<close> (lines 212-221).\<close>

definition setVal :: "nat option \<Rightarrow> string \<Rightarrow> document \<Rightarrow> bool \<times> document" where
  "setVal el v d =
     (case el of
        None \<Rightarrow> (False, d)
      | Some i \<Rightarrow>
          (let d1 = updateElement i (notify Focus) d;
               d2 = updateElement i (assign []) d1;
               d3 = updateElement i (notify InputEvent) d2;
               d4 = updateElement i (assign v) d3;
               d5 = updateElement i (notify InputEvent) d4;
               d6 = updateElement i (notify ChangeEvent) d5
           in (True, d6)))"

definition fieldText :: "element \<Rightarrow> string" where
  "fieldText el = el_id el @ '' '' @ el_name el @ '' '' @ el_className el"

definition looksLikeDns :: "element \<Rightarrow> bool" where
  "looksLikeDns el = str_includes (toLowerCase (fieldText el)) ''dns''"

text \<open>The selector \<open>input[type="text"], input[type="tel"], input:not([type])\<close>.\<close>

definition textLikeInput :: "element \<Rightarrow> bool" where
  "textLikeInput el =
     (el_tag el = ''input'' \<and>
      (case el_type el of
         None \<Rightarrow> True
       | Some t \<Rightarrow> toLowerCase t = ''text'' \<or> toLowerCase t = ''tel''))"

text \<open>The regular expressions \<open>/pri|primary|dns1|pref/i\<close> and \<open>/sec|secondary|dns2|alt/i\<close>.\<close>

definition rxPrimary :: "string \<Rightarrow> bool" where
  "rxPrimary t =
     (let l = toLowerCase t in
      str_includes l ''pri'' \<or> str_includes l ''primary'' \<or> str_includes l ''dns1'' \<or>
      str_includes l ''pref'')"

definition rxSecondary :: "string \<Rightarrow> bool" where
  "rxSecondary t =
     (let l = toLowerCase t in
      str_includes l ''sec'' \<or> str_includes l ''secondary'' \<or> str_includes l ''dns2'' \<or>
      str_includes l ''alt'')"

definition setDnsByHeuristic_dom :: "string \<Rightarrow> string \<Rightarrow> document \<Rightarrow> (bool \<times> bool) \<times> document" where
  "setDnsByHeuristic_dom d1 d2 d =
     (let inputs =
            filter (\<lambda>i. textLikeInput (d_elements d ! i) \<and> looksLikeDns (d_elements d ! i))
              [0..<length (d_elements d)]
      in if inputs = [] then ((False, d2 = []), d)
         else
           (let pick = (\<lambda>rx. List.find (\<lambda>i. rx (fieldText (d_elements d ! i))) inputs);
                pri = (case pick rxPrimary of Some i \<Rightarrow> i | None \<Rightarrow> hd inputs);
                sec =
                  (if d2 \<noteq> [] then
                     (case pick rxSecondary of
                        Some i \<Rightarrow> Some i
                      | None \<Rightarrow> List.find (\<lambda>i. i \<noteq> pri) inputs)
                   else None);
                (ok1, dA) = setVal (Some pri) d1 d;
                (ok2, dB) = (if d2 \<noteq> [] then setVal sec d2 dA else (True, dA))
            in ((ok1, ok2), dB)))"

text \<open>The callback of \<open>setInputByLabel\<close> (lines 304-325): its write dispatches no change event.\<close>

definition labelWrite :: "nat \<Rightarrow> string \<Rightarrow> document \<Rightarrow> document" where
  "labelWrite i v d =
     (let d1 = updateElement i (notify Focus) d;
          d2 = updateElement i (assign []) d1;
          d3 = updateElement i (notify InputEvent) d2;
          d4 = updateElement i (assign v) d3;
          d5 = updateElement i (notify InputEvent) d4
      in d5)"

definition labelMatches :: "label \<Rightarrow> string \<Rightarrow> bool" where
  "labelMatches l labelText =
     (l_textContent l \<noteq> [] \<and>
      str_includes (toLowerCase (trim (l_textContent l))) (toLowerCase labelText))"

definition labelTarget :: "document \<Rightarrow> label \<Rightarrow> nat option" where
  "labelTarget d l =
     (let byFor = (case l_for l of
                     Some forId \<Rightarrow> if forId \<noteq> [] then getElementById d forId else None
                   | None \<Rightarrow> None);
          nested = (case byFor of Some i \<Rightarrow> Some i | None \<Rightarrow> l_input l)
      in case nested of
           Some i \<Rightarrow> Some i
         | None \<Rightarrow> (case l_parentInput l of Some p \<Rightarrow> p | None \<Rightarrow> None))"

fun setInputByLabel_loop :: "label list \<Rightarrow> string \<Rightarrow> string \<Rightarrow> document \<Rightarrow> bool \<times> document" where
  "setInputByLabel_loop [] labelText v d = (False, d)"
| "setInputByLabel_loop (l # ls) labelText v d =
     (if labelMatches l labelText then
        (case labelTarget d l of
           Some i \<Rightarrow> (True, labelWrite i v d)
         | None \<Rightarrow> setInputByLabel_loop ls labelText v d)
      else setInputByLabel_loop ls labelText v d)"

definition setInputByLabel_dom :: "string \<Rightarrow> string \<Rightarrow> document \<Rightarrow> bool \<times> document" where
  "setInputByLabel_dom labelText v d = setInputByLabel_loop (d_labels d) labelText v d"

section \<open>Vocabulary of the properties\<close>

text \<open>
  \<open>lookup\<close> is what a cascade of src/index.js sees of a candidate: the element
  \<open>ctx.$(sel)\<close> resolves to, a rejection read as no element. \<open>logged cs s\<close> is the state
  \<open>s\<close> after the reading calls \<open>cs\<close>. \<open>untimed\<close> forgets the timing argument of a call.
\<close>

definition lookup :: "'w engine \<Rightarrow> 'w \<Rightarrow> ctx \<Rightarrow> selector \<Rightarrow> handle option" where
  "lookup B w c sel = caught None (e_query B w c sel)"

definition logged :: "call list \<Rightarrow> 'w st \<Rightarrow> 'w st" where
  "logged cs s = s\<lparr>trace := trace s @ cs\<rparr>"

fun untimed :: "call \<Rightarrow> call" where
  "untimed (Sleep ms) = Sleep 0"
| "untimed (TypeText el v d) = TypeText el v 0"
| "untimed (WaitForSelector c sel t) = WaitForSelector c sel 0"
| "untimed (WaitForNavigation t) = WaitForNavigation 0"
| "untimed c = c"

text \<open>
  \<open>replay B cs s\<close> is the state \<open>s\<close> after the calls \<open>cs\<close>, whoever made them: every call
  is recorded, and every call other than a selector query or a content-frame request
  moves the world by the engine's \<open>e_step\<close>. \<open>firstMatch\<close> is what a selector cascade
  can find in a world: the candidates asked up to and including the first that resolves
  to an element, with that element. An attempt \<open>Passes\<close>, \<open>Fails\<close> (it found nothing to
  act on) or \<open>Raises\<close> (an engine rejection that nothing catches); \<open>reported\<close> is how a
  helper of the program reports the three.
\<close>

fun isReading :: "call \<Rightarrow> bool" where
  "isReading (Query c sel) = True"
| "isReading (ContentFrame h) = True"
| "isReading c = False"

definition replay :: "'w engine \<Rightarrow> call list \<Rightarrow> 'w st \<Rightarrow> 'w st" where
  "replay B cs s =
     \<lparr>world = foldl (\<lambda>w c. if isReading c then w else e_step B c w) (world s) cs,
      trace = trace s @ cs\<rparr>"

fun firstMatch :: "'w engine \<Rightarrow> 'w \<Rightarrow> ctx \<Rightarrow> selector list \<Rightarrow> (selector list \<times> handle) option" where
  "firstMatch B w c [] = None"
| "firstMatch B w c (sel # sels) =
     (case lookup B w c sel of
        Some el \<Rightarrow> Some ([sel], el)
      | None \<Rightarrow> map_option (\<lambda>(asked, el). (sel # asked, el)) (firstMatch B w c sels))"

datatype outcome = Raises | Fails | Passes

fun reported :: "outcome \<Rightarrow> error + bool" where
  "reported Raises = Inl EngineError"
| "reported Fails = Inr False"
| "reported Passes = Inr True"

section \<open>Example pages\<close>

text \<open>
  Small concrete engines over a one-state world. \<open>staticPage q f\<close> answers selector
  queries with \<open>q\<close> and content-frame requests with \<open>f\<close>; typing and navigation resolve,
  every evaluate callback reports that it did nothing.
\<close>

definition staticPage ::
  "(ctx \<Rightarrow> selector \<Rightarrow> handle option promise) \<Rightarrow> (handle \<Rightarrow> nat option promise) \<Rightarrow> unit engine" where
  "staticPage q f =
     \<lparr>e_query = (\<lambda>w. q), e_contentFrame = (\<lambda>w. f), e_type = (\<lambda>w el v. True),
      e_goto = (\<lambda>w u. True), e_evalBool = (\<lambda>w c sc. Resolved False),
      e_heuristic = (\<lambda>w c d1 d2. Resolved (False, d2 = [])),
      e_readDns = (\<lambda>w c. Resolved ([], [])), e_step = (\<lambda>c w. w)\<rparr>"

definition start :: "unit st" where
  "start = \<lparr>world = (), trace = []\<rparr>"

text \<open>A login page whose password field answers to the third candidate only.\<close>

definition loginPage :: "unit engine" where
  "loginPage =
     staticPage (\<lambda>c sel. if sel = ''input#Password'' then Resolved (Some 4)
                          else if sel = ''input#txt_Password'' then Resolved (Some 5)
                          else Resolved None)
       (\<lambda>h. Resolved None)"

text \<open>
  A page with two iframes: the one matching the second frame selector has no accessible
  document, the one matching the third has.
\<close>

definition twoFrames :: "unit engine" where
  \<open>twoFrames =
     staticPage (\<lambda>c sel. if sel = ''iframe[src*="dhcp"]'' then Resolved (Some 1)
                          else if sel = ''iframe[src*="bbsp"]'' then Resolved (Some 2)
                          else Resolved None)
       (\<lambda>h. if h = 2 then Resolved (Some 7) else Resolved None)\<close>

text \<open>A page on which querying the malformed pattern \<open>input[name=\<close> rejects.\<close>

definition malformedPage :: "unit engine" where
  "malformedPage =
     staticPage (\<lambda>c sel. if sel = ''input[name='' then Rejected
                          else if sel = ''input#Password'' then Resolved (Some 1)
                          else Resolved None)
       (\<lambda>h. Resolved None)"

text \<open>
  A document with the markup \<open><label>Primary DNS Server</label><input>\<close> under one
  parent: the label has no \<open>for\<close> attribute and no nested input, its parent's first input
  is element 0, which holds an old address.
\<close>

definition labelDoc :: document where
  "labelDoc =
     \<lparr>d_elements =
        [\<lparr>el_tag = ''input'', el_type = None, el_id = [], el_name = [], el_className = [],
          el_value = ''192.168.1.1'', el_log = []\<rparr>],
      d_labels =
        [\<lparr>l_textContent = ''Primary DNS Server'', l_for = None, l_input = None,
          l_parentInput = Some (Some 0)\<rparr>]\<rparr>"





text \<open>
  The DHCP page of the router: the menu iframe (element 1, frame 0) and inside it the
  inputs \<open>input#dnsMainPri\<close> (element 10) and \<open>input#dnsMainSec\<close> (element 11).
  \<open>dhcpPageTypingFails\<close> is the same page when typing into element 11 rejects;
  \<open>emptyFramePage\<close> has the iframe but no DNS input and no save control.
\<close>

definition dhcpPage :: "unit engine" where
  "dhcpPage =
     staticPage (\<lambda>c sel. if sel = ''iframe#menuIframe'' then Resolved (Some 1)
                          else if sel = ''input#dnsMainPri'' then Resolved (Some 10)
                          else if sel = ''input#dnsMainSec'' then Resolved (Some 11)
                          else Resolved None)
       (\<lambda>h. if h = 1 then Resolved (Some 0) else Resolved None)"

definition dhcpPageTypingFails :: "unit engine" where
  "dhcpPageTypingFails = dhcpPage\<lparr>e_type := (\<lambda>w el v. el \<noteq> 11)\<rparr>"

definition emptyFramePage :: "unit engine" where
  "emptyFramePage =
     staticPage (\<lambda>c sel. if sel = ''iframe#menuIframe'' then Resolved (Some 1) else Resolved None)
       (\<lambda>h. if h = 1 then Resolved (Some 0) else Resolved None)"

section \<open>The apply order, as the specification words it\<close>

text \<open>
  The specification's apply sequence, read off the engine's answers alone: the fixed
  identifier, the selector cascade over the save patterns, the words of the text list in
  order (the page is asked for the lower-cased word), and last the page's global apply
  function. \<open>attemptCalls B c a w\<close> says whether the attempt \<open>a\<close> succeeds in the world
  \<open>w\<close> and which calls it makes: an attempt that finds its control clicks it and lets the
  page settle, one that does not only asks. \<open>applySequence\<close> runs the attempts in order
  and stops with true at the first that succeeds; it is false when all have failed.
\<close>

datatype attempt = FixedId | Cascade | TextMatch string | GlobalApply

definition applyOrder :: "attempt list" where
  "applyOrder =
     [FixedId, Cascade, TextMatch ''Apply'', TextMatch ''Save'', TextMatch ''Guardar'',
      TextMatch ''Aplicar'', TextMatch ''Submit'', TextMatch ''OK'', GlobalApply]"

fun attemptCalls :: "'w engine \<Rightarrow> ctx \<Rightarrow> attempt \<Rightarrow> 'w \<Rightarrow> bool \<times> call list" where
  "attemptCalls B c FixedId w =
     (case lookup B w c ''#btnApply_ex'' of
        Some el \<Rightarrow> (True, [Query c ''#btnApply_ex'', Click el 1, Sleep 300])
      | None \<Rightarrow> (False, [Query c ''#btnApply_ex'']))"
| "attemptCalls B c Cascade w =
     (case firstMatch B w c saveButtons of
        Some (asked, el) \<Rightarrow> (True, map (Query c) asked @ [Click el 1, Sleep 300, Sleep 300])
      | None \<Rightarrow> (False, map (Query c) saveButtons))"
| "attemptCalls B c (TextMatch t) w =
     (if e_evalBool B w c (ClickByTextInContext (toLowerCase t)) = Resolved True
      then (True, [Evaluate c (ClickByTextInContext (toLowerCase t)), Sleep 300, Sleep 300])
      else (False, [Evaluate c (ClickByTextInContext (toLowerCase t))]))"
| "attemptCalls B c GlobalApply w =
     (if e_evalBool B w c InvokeApplyConfig = Resolved True
      then (True, [Evaluate c InvokeApplyConfig, Sleep 300])
      else (False, [Evaluate c InvokeApplyConfig]))"

fun applySequence :: "'w engine \<Rightarrow> ctx \<Rightarrow> attempt list \<Rightarrow> 'w st \<Rightarrow> bool \<times> 'w st" where
  "applySequence B c [] s = (False, s)"
| "applySequence B c (a # as) s =
     (let (ok, cs) = attemptCalls B c a (world s) in
      if ok then (True, replay B cs s) else applySequence B c as (replay B cs s))"

section \<open>The menu navigator, as the specification words it\<close>

text \<open>
  The specification's state machine, read off the engine's answers alone. One
  \<open>transition\<close> clicks the element with the fixed identifier when the page has it, else
  asks the text matcher for the label; it fails when the matcher clicks nothing and
  raises when the matcher's evaluation rejects. \<open>menuPath\<close> lists the three transitions
  \<open>TOP_MENU\<close>, \<open>SUB_MENU\<close>, \<open>LEAF_PAGE\<close> with the settle calls that follow each; \<open>walk\<close>
  takes them in order, each once, and stops at the first that does not pass.
  \<open>frameSearch\<close> is the location of the content frame: the first candidate iframe whose
  document is accessible, with the calls of the search.
\<close>

definition transition :: "'w engine \<Rightarrow> ctx \<Rightarrow> selector \<Rightarrow> string \<Rightarrow> 'w \<Rightarrow> outcome \<times> call list" where
  "transition B page fixedId label w =
     (case lookup B w page fixedId of
        Some el \<Rightarrow> (Passes, [Query page fixedId, Click el 1])
      | None \<Rightarrow>
          (case e_evalBool B w page (ClickByText label) of
             Rejected \<Rightarrow> (Raises, [Query page fixedId, Evaluate page (ClickByText label)])
           | Resolved clicked \<Rightarrow>
               if clicked
               then (Passes, [Query page fixedId, Evaluate page (ClickByText label), Sleep 300])
               else (Fails, [Query page fixedId, Evaluate page (ClickByText label)])))"

definition menuPath :: "ctx \<Rightarrow> (selector \<times> string \<times> call list) list" where
  "menuPath page =
     [(''#addconfig'', ''Advanced Configuration'', [Sleep 400]),
      (''#lanconfig'', ''LAN'', [WaitForSelector page ''#lanconfig_menu'' 3000, Sleep 200]),
      (''#landhcp'', ''DHCP Server'', [])]"

fun walk ::
  "'w engine \<Rightarrow> ctx \<Rightarrow> (selector \<times> string \<times> call list) list \<Rightarrow> 'w st \<Rightarrow> outcome \<times> 'w st" where
  "walk B page [] s = (Passes, s)"
| "walk B page ((fixedId, label, settle) # ts) s =
     (let (res, cs) = transition B page fixedId label (world s) in
      if res = Passes then walk B page ts (replay B (cs @ settle) s) else (res, replay B cs s))"

fun frameSearch :: "'w engine \<Rightarrow> 'w \<Rightarrow> ctx \<Rightarrow> selector list \<Rightarrow> nat option \<times> call list" where
  "frameSearch B w page [] = (None, [])"
| "frameSearch B w page (sel # sels) =
     (case lookup B w page sel of
        None \<Rightarrow> (let (f, cs) = frameSearch B w page sels in (f, Query page sel # cs))
      | Some h \<Rightarrow>
          (case caught None (e_contentFrame B w h) of
             Some fr \<Rightarrow> (Some fr, [Query page sel, ContentFrame h])
           | None \<Rightarrow>
               (let (f, cs) = frameSearch B w page sels
                in (f, Query page sel # ContentFrame h # cs))))"

section \<open>The DNS field resolver, as the specification words it\<close>

text \<open>
  The specification's three tiers, read off the engine's answers alone, world by world.
  \<open>typed\<close> is tier 1 for one field: the first candidate that resolves is clicked and
  typed into, and a rejected typing raises. \<open>labelled\<close> is tier 2 for one field: the
  labels are asked in order until one reports a write, and a rejected evaluation raises.
  \<open>fieldsAfterTiers\<close> runs tier 1 for the primary and (when a secondary value is asked
  for) the secondary field, tier 2 for each field tier 1 left unset, and the heuristic
  scan when a field is still unset, which can resolve both. It is \<open>None\<close> when a call
  raised; otherwise it says for each field which tier resolved it, if any.
\<close>

datatype resolution = BySelector | ByLabel | ByHeuristic | Unresolved | NotRequested

definition typed :: "'w engine \<Rightarrow> ctx \<Rightarrow> selector list \<Rightarrow> string \<Rightarrow> 'w \<Rightarrow> outcome \<times> 'w" where
  "typed B fr sels v w =
     (case firstMatch B w fr sels of
        None \<Rightarrow> (Fails, w)
      | Some (asked, el) \<Rightarrow>
          (let w1 = e_step B (Click el 3) w in
           (if e_type B w1 el v then Passes else Raises, e_step B (TypeText el v 10) w1)))"

fun labelled :: "'w engine \<Rightarrow> ctx \<Rightarrow> string list \<Rightarrow> string \<Rightarrow> 'w \<Rightarrow> outcome \<times> 'w" where
  "labelled B fr [] v w = (Fails, w)"
| "labelled B fr (l # ls) v w =
     (let w1 = e_step B (Evaluate fr (SetInputByLabel l v)) w in
      case e_evalBool B w fr (SetInputByLabel l v) of
        Rejected \<Rightarrow> (Raises, w1)
      | Resolved wrote \<Rightarrow> if wrote then (Passes, w1) else labelled B fr ls v w1)"

definition fieldsAfterTiers ::
  "'w engine \<Rightarrow> ctx \<Rightarrow> string \<Rightarrow> string \<Rightarrow> 'w \<Rightarrow> (resolution \<times> resolution) option \<times> 'w" where
  "fieldsAfterTiers B fr d1 d2 w0 =
     (let (p1, w1) = typed B fr primaryDns d1 w0 in
      if p1 = Raises then (None, w1)
      else
        (let (q1, w2) = (if d2 = [] then (Passes, w1) else typed B fr secondaryDns d2 w1) in
         if q1 = Raises then (None, w2)
         else
           (let (p2, w3) = (if p1 = Fails then labelled B fr primaryLabels d1 w2 else (Fails, w2)) in
            if p2 = Raises then (None, w3)
            else
              (let (q2, w4) =
                     (if q1 = Fails then labelled B fr secondaryLabels d2 w3 else (Fails, w3)) in
               if q2 = Raises then (None, w4)
               else
                 (let p = (if p1 = Passes then BySelector
                           else if p2 = Passes then ByLabel else Unresolved);
                      q = (if d2 = [] then NotRequested
                           else if q1 = Passes then BySelector
                           else if q2 = Passes then ByLabel else Unresolved)
                  in if p = Unresolved \<or> q = Unresolved then
                       (let (h1, h2) = caught (False, d2 = []) (e_heuristic B w4 fr d1 d2) in
                        (Some (if p = Unresolved \<and> h1 then ByHeuristic else p,
                               if q = Unresolved \<and> h2 then ByHeuristic else q),
                         e_step B (Evaluate fr (SetDnsByHeuristic d1 d2)) w4))
                     else (Some (p, q), w4))))))"

text \<open>
  The router's pages as one static engine: the login form (password field, element 3),
  the three menu entries with their fixed ids (elements 20, 21, 22), the menu iframe
  (element 1, frame 0) with the two DNS inputs (elements 10 and 11). The page shows no
  title, reads back empty DNS values and has no save control. \<open>routerPage\<close> adds the
  apply button \<open>#btnApply_ex\<close> (element 30); \<open>applyConfigPage\<close> has no apply control
  but exposes the global function \<open>ApplyConfig\<close>.
\<close>

definition noSavePage :: "unit engine" where
  "noSavePage =
     staticPage (\<lambda>c sel. if sel = ''input#Password'' then Resolved (Some 3)
                          else if sel = ''#addconfig'' then Resolved (Some 20)
                          else if sel = ''#lanconfig'' then Resolved (Some 21)
                          else if sel = ''#landhcp'' then Resolved (Some 22)
                          else if sel = ''iframe#menuIframe'' then Resolved (Some 1)
                          else if sel = ''input#dnsMainPri'' then Resolved (Some 10)
                          else if sel = ''input#dnsMainSec'' then Resolved (Some 11)
                          else Resolved None)
       (\<lambda>h. if h = 1 then Resolved (Some 0) else Resolved None)"

definition routerPage :: "unit engine" where
  "routerPage =
     noSavePage\<lparr>e_query := (\<lambda>w c sel. if sel = ''#btnApply_ex'' then Resolved (Some 30)
                                         else e_query noSavePage w c sel)\<rparr>"

definition applyConfigPage :: "unit engine" where
  "applyConfigPage =
     noSavePage\<lparr>e_evalBool := (\<lambda>w c sc. Resolved (sc = InvokeApplyConfig))\<rparr>"

text \<open>
  \<open>saveCascadePage\<close> is \<open>noSavePage\<close> with a button matching the third save pattern
  (element 31); on \<open>saveTextPage\<close> the only apply control is one whose text contains
  \<open>save\<close>; \<open>labelledPage\<close> is \<open>emptyFramePage\<close> when the label \<open>Primary DNS\<close> leads to an
  input, \<open>heuristicPage\<close> when the heuristic scan finds a primary input and no secondary
  one; \<open>noFramePage\<close> has the three menu entries and no iframe; \<open>menuTextPage\<close> has
  the login form and a menu whose first entry is found by its text only, the second
  entry missing.
\<close>

definition saveCascadePage :: "unit engine" where
  "saveCascadePage =
     noSavePage\<lparr>e_query := (\<lambda>w c sel. if sel = ''button#btnApply'' then Resolved (Some 31)
                                         else e_query noSavePage w c sel)\<rparr>"

definition saveTextPage :: "unit engine" where
  "saveTextPage =
     noSavePage\<lparr>e_evalBool := (\<lambda>w c sc. Resolved (sc = ClickByTextInContext ''save''))\<rparr>"

definition labelledPage :: "unit engine" where
  "labelledPage =
     emptyFramePage\<lparr>e_evalBool :=
       (\<lambda>w c sc. Resolved (sc = SetInputByLabel ''Primary DNS'' ''1.1.1.1''))\<rparr>"

definition heuristicPage :: "unit engine" where
  "heuristicPage = emptyFramePage\<lparr>e_heuristic := (\<lambda>w c d1 d2. Resolved (True, False))\<rparr>"

definition noFramePage :: "unit engine" where
  "noFramePage =
     staticPage (\<lambda>c sel. if sel = ''#addconfig'' then Resolved (Some 20)
                          else if sel = ''#lanconfig'' then Resolved (Some 21)
                          else if sel = ''#landhcp'' then Resolved (Some 22)
                          else Resolved None)
       (\<lambda>h. Resolved None)"

definition menuTextPage :: "unit engine" where
  "menuTextPage =
     loginPage\<lparr>e_evalBool := (\<lambda>w c sc. Resolved (sc = ClickByText ''Advanced Configuration''))\<rparr>"

definition runArgs :: args where
  "runArgs =
     \<lparr>a_url = ''http://192.168.1.1'', a_user = ''admin'', a_pass = ''secret'',
      a_dns1 = ''1.1.1.1'', a_dns2 = ''1.0.0.1'', a_headful = False, a_debug = False\<rparr>"

text \<open>\<open>titledPage\<close> is \<open>routerPage\<close> when the DHCP title is shown in the frame.\<close>

definition titledPage :: "unit engine" where
  "titledPage = routerPage\<lparr>e_evalBool := (\<lambda>w c sc. Resolved (sc = TitleCheck))\<rparr>"

section \<open>Vocabulary of the verification loop\<close>

text \<open>
  \<open>navCount page s\<close> counts the runs of the menu navigator on \<open>page\<close> recorded in the
  trace of \<open>s\<close>: \<open>navigateToDns\<close> opens with the query for \<open>#addconfig\<close> and no other
  function makes that query. \<open>poll\<close> is one reading of the loop of \<open>verifyDnsApplied\<close>:
  no frame, or the frame's values compared with the expected ones.
  \<open>unmatchedThrough B page e1 e2 d i k s\<close> is the state after the delay of iteration
  \<open>k\<close> when the iterations \<open>i\<close> to \<open>k\<close>, started in \<open>s\<close> with only the delay between
  them, all find the frame and no match; otherwise it is \<open>None\<close>.
\<close>

definition navCount :: "ctx \<Rightarrow> 'w st \<Rightarrow> nat" where
  "navCount page s = length (filter (\<lambda>c. c = Query page ''#addconfig'') (trace s))"

definition poll :: "'w engine \<Rightarrow> ctx \<Rightarrow> string \<Rightarrow> string \<Rightarrow> 'w st \<Rightarrow> bool option \<times> 'w st" where
  "poll B page expected1 expected2 s =
     (let (frame, s1) = getContentFrame B page s in
      case frame of
        None \<Rightarrow> (None, s1)
      | Some fr \<Rightarrow>
          (let ((primary, secondary), s2) = readDnsValuesFromFrame B fr s1
           in (Some (primary = expected1 \<and> (expected2 = [] \<or> secondary = expected2)), s2)))"

function unmatchedThrough ::
  "'w engine \<Rightarrow> ctx \<Rightarrow> string \<Rightarrow> string \<Rightarrow> nat \<Rightarrow> int \<Rightarrow> int \<Rightarrow> 'w st \<Rightarrow> 'w st option" where
  "unmatchedThrough B page e1 e2 d i k s =
     (if i \<le> k then
        (case poll B page e1 e2 s of
           (Some False, s2) \<Rightarrow>
             (if i = k then Some (sleep B d s2)
              else unmatchedThrough B page e1 e2 d (i + 1) k (sleep B d s2))
         | (Some True, s2) \<Rightarrow> None
         | (None, s2) \<Rightarrow> None)
      else None)"
  by pat_completeness auto
termination
  by (relation "measure (\<lambda>(B, page, e1, e2, d, i, k, s). nat (k + 1 - i))") auto

text \<open>
  A router that shows the written DNS values only after the menu has been navigated
  again: the world records whether \<open>#addconfig\<close> (element 20) has been clicked.
\<close>

definition resetPage :: "bool engine" where
  "resetPage =
     \<lparr>e_query = (\<lambda>w c sel. if sel = ''#addconfig'' then Resolved (Some 20)
                            else if sel = ''#lanconfig'' then Resolved (Some 21)
                            else if sel = ''#landhcp'' then Resolved (Some 22)
                            else if sel = ''iframe#menuIframe'' then Resolved (Some 1)
                            else Resolved None),
      e_contentFrame = (\<lambda>w h. if h = 1 then Resolved (Some 0) else Resolved None),
      e_type = (\<lambda>w el v. True),
      e_goto = (\<lambda>w u. True),
      e_evalBool = (\<lambda>w c sc. Resolved False),
      e_heuristic = (\<lambda>w c d1 d2. Resolved (False, d2 = [])),
      e_readDns = (\<lambda>w c. Resolved (if w then (''1.1.1.1'', ''1.0.0.1'') else ([], []))),
      e_step = (\<lambda>c w. w \<or> c = Click 20 1)\<rparr>"

definition afterSave :: "bool st" where
  "afterSave = \<lparr>world = False, trace = []\<rparr>"

text \<open>
  A document with two text inputs whose ids carry \<open>dns\<close> but no primary or secondary
  keyword, and no labels.
\<close>

definition inputA :: element where
  "inputA =
     \<lparr>el_tag = ''input'', el_type = Some ''text'', el_id = ''foo-dns-a'', el_name = [],
      el_className = [], el_value = [], el_log = []\<rparr>"

definition inputB :: element where
  "inputB =
     \<lparr>el_tag = ''input'', el_type = Some ''text'', el_id = ''foo-dns-b'', el_name = [],
      el_className = [], el_value = [], el_log = []\<rparr>"

definition twoInputs :: document where
  "twoInputs = \<lparr>d_elements = [inputA, inputB], d_labels = []\<rparr>"

section \<open>Replaying calls\<close>

lemma replay_Nil [simp]: "replay B [] s = s"
  by (simp add: replay_def)

lemma replay_append: "replay B (cs @ ds) s = replay B ds (replay B cs s)"
  by (simp add: replay_def)

lemma replay_Cons: "replay B (c # cs) s = replay B cs (replay B [c] s)"
  by (simp add: replay_def)

lemma perform_replay: "\<not> isReading c \<Longrightarrow> perform B c s = replay B [c] s"
  by (simp add: perform_def replay_def)

lemma query_replay:
  "query B c sel s = (e_query B (world s) c sel, replay B [Query c sel] s)"
  by (simp add: query_def observe_def replay_def)

lemma world_query [simp]: "world (replay B [Query c sel] s) = world s"
  by (simp add: replay_def)


section \<open>Unfolding the model on the example pages\<close>


lemmas engine_defs = query_def observe_def perform_def contentFrame_def click_def typeText_def
  sleep_def evaluateBool_def caught_def await_def andThen_def goto_def

lemmas page_defs = staticPage_def noSavePage_def routerPage_def applyConfigPage_def titledPage_def
  dhcpPage_def dhcpPageTypingFails_def emptyFramePage_def start_def runArgs_def
  saveCascadePage_def saveTextPage_def labelledPage_def heuristicPage_def noFramePage_def menuTextPage_def loginPage_def

lemmas table_defs = username_def password_def loginButtons_def primaryDns_def secondaryDns_def
  manualDnsToggles_def saveButtons_def frameSelectors_def loginTexts_def applyWords_def
  primaryLabels_def secondaryLabels_def

lemmas fun_defs = clickByText_def clickByTextInContext_def setInputByLabel_def
  setDnsByHeuristic_def ensureManualDns_def clickMenu_def navigateToDns_def getContentFrame_def
  dnsTier1_def dnsTier2_def dnsTier3_def setDnsValues_tiers_def setDnsValues_def
  saveChanges_def readDnsValuesFromFrame_def verifyDnsApplied_def main_login_def
  main_configure_def

lemmas run_defs = engine_defs page_defs table_defs fun_defs

lemmas spec_defs = replay_def lookup_def transition_def menuPath_def typed_def
  fieldsAfterTiers_def

section \<open>Properties of the selector cascades\<close>

lemma logged_simps [simp]:
  "world (logged cs s) = world s"
  "trace (logged cs s) = trace s @ cs"
  "logged [] s = s"
  "logged cs (logged ds s) = logged (ds @ cs) s"
  by (simp_all add: logged_def)

lemma observe_logged: "observe c s = logged [c] s"
  by (simp add: observe_def logged_def)

lemma clickFirst_absent:
  "\<forall>sel\<in>set pre. lookup B (world s) c sel = None \<Longrightarrow>
   clickFirst B c (pre @ rest) wait s = clickFirst B c rest wait (logged (map (Query c) pre) s)"
  by (induction pre arbitrary: s) (simp_all add: query_def observe_logged lookup_def)

lemma waitAndTypeFirst_absent:
  "\<forall>sel\<in>set pre. lookup B (world s) c sel = None \<Longrightarrow>
   waitAndTypeFirst B c (pre @ rest) v s =
     waitAndTypeFirst B c rest v (logged (map (Query c) pre) s)"
  by (induction pre arbitrary: s) (simp_all add: query_def observe_logged lookup_def)

lemma getContentFrame_loop_absent:
  "\<forall>sel\<in>set pre. lookup B (world s) c sel = None \<Longrightarrow>
   getContentFrame_loop B c (pre @ rest) s =
     getContentFrame_loop B c rest (logged (map (Query c) pre) s)"
  by (induction pre arbitrary: s) (simp_all add: query_def observe_logged lookup_def)

text \<open>
  C1 (amended). Let no candidate of \<open>pre\<close> resolve to an element in the context and let
  the next candidate \<open>cand\<close> resolve to \<open>el\<close>. Then \<open>clickFirst\<close> queries exactly
  \<open>pre @ [cand]\<close>, clicks \<open>el\<close> and returns true; \<open>waitAndTypeFirst\<close> queries exactly
  \<open>pre @ [cand]\<close>, triple-clicks \<open>el\<close> and types into it, returning true when the typing
  resolves and raising when it rejects; the frame loop of \<open>getContentFrame\<close> asks \<open>el\<close>
  for its content frame and returns it when it is accessible, and only otherwise goes on
  with the later candidates.
\<close>

theorem cascade_priority:
  assumes "\<forall>sel\<in>set pre. lookup B (world s) c sel = None"
    and "lookup B (world s) c cand = Some el"
  shows
    "clickFirst B c (pre @ cand # post) wait s =
       (True, (if wait then sleep B 300 else id)
                (click B el 1 (logged (map (Query c) (pre @ [cand])) s))) \<and>
     waitAndTypeFirst B c (pre @ cand # post) v s =
       ((if e_type B (e_step B (Click el 3) (world s)) el v then Inr True else Inl EngineError),
        perform B (TypeText el v 10) (click B el 3 (logged (map (Query c) (pre @ [cand])) s))) \<and>
     getContentFrame_loop B c (pre @ cand # post) s =
       (case caught None (e_contentFrame B (world s) el) of
          Some fr \<Rightarrow>
            (Some (Frame fr), logged (map (Query c) (pre @ [cand]) @ [ContentFrame el]) s)
        | None \<Rightarrow>
            getContentFrame_loop B c post
              (logged (map (Query c) (pre @ [cand]) @ [ContentFrame el]) s))"
proof -
  have click: "clickFirst B c (pre @ cand # post) wait s =
       (True, (if wait then sleep B 300 else id)
                (click B el 1 (logged (map (Query c) (pre @ [cand])) s)))"
    using assms
    by (simp add: clickFirst_absent query_def observe_logged lookup_def)
  have type: "waitAndTypeFirst B c (pre @ cand # post) v s =
       ((if e_type B (e_step B (Click el 3) (world s)) el v then Inr True else Inl EngineError),
        perform B (TypeText el v 10) (click B el 3 (logged (map (Query c) (pre @ [cand])) s)))"
    using assms
    by (simp add: waitAndTypeFirst_absent query_def observe_logged lookup_def typeText_def
        andThen_def click_def perform_def)
  have frame: "getContentFrame_loop B c (pre @ cand # post) s =
       (case caught None (e_contentFrame B (world s) el) of
          Some fr \<Rightarrow>
            (Some (Frame fr), logged (map (Query c) (pre @ [cand]) @ [ContentFrame el]) s)
        | None \<Rightarrow>
            getContentFrame_loop B c post
              (logged (map (Query c) (pre @ [cand]) @ [ContentFrame el]) s))"
    using assms
    by (simp add: getContentFrame_loop_absent query_def observe_logged lookup_def
        contentFrame_def split: option.splits)
  from click type frame show ?thesis by simp
qed

theorem cascade_priority_witness:
  "lookup loginPage () Page ''input[name=password]'' = None \<and>
   lookup loginPage () Page ''input#Password'' = Some 4 \<and>
   clickFirst loginPage Page [''input[name=password]'', ''input#Password'', ''input#txt_Password'']
     True start =
     (True, \<lparr>world = (),
             trace = [Query Page ''input[name=password]'', Query Page ''input#Password'',
                      Click 4 1, Sleep 300]\<rparr>) \<and>
   waitAndTypeFirst loginPage Page
     [''input[name=password]'', ''input#Password'', ''input#txt_Password''] ''secret'' start =
     (Inr True, \<lparr>world = (),
                 trace = [Query Page ''input[name=password]'', Query Page ''input#Password'',
                          Click 4 3, TypeText 4 ''secret'' 10]\<rparr>) \<and>
   getContentFrame_loop loginPage Page
     [''input[name=password]'', ''input#Password'', ''input#txt_Password''] start =
     (None, \<lparr>world = (),
             trace = [Query Page ''input[name=password]'', Query Page ''input#Password'',
                      ContentFrame 4, Query Page ''input#txt_Password'', ContentFrame 5]\<rparr>)"
  using cascade_priority [of "[''input[name=password]'']" loginPage start Page
      "''input#Password''" 4 "[''input#txt_Password'']" True "''secret''"]
  by (simp add: lookup_def loginPage_def staticPage_def start_def caught_def sleep_def
      click_def perform_def logged_def query_def observe_def contentFrame_def)

text \<open>
  C1 as stated fails for frame location: on \<open>twoFrames\<close> the first frame selector matches
  nothing and the second matches element 1, yet \<open>getContentFrame\<close> returns frame 7, the
  content frame of element 2, which only the third selector matches.
\<close>

theorem cascade_priority_counterexample:
  \<open>lookup twoFrames () Page ''iframe#menuIframe'' = None \<and>
   lookup twoFrames () Page ''iframe[src*="dhcp"]'' = Some 1 \<and>
   e_contentFrame twoFrames () 1 = Resolved None \<and>
   lookup twoFrames () Page ''iframe[src*="bbsp"]'' = Some 2 \<and>
   e_contentFrame twoFrames () 2 = Resolved (Some 7) \<and>
   getContentFrame twoFrames Page start =
     (Some (Frame 7),
      \<lparr>world = (),
       trace = [Query Page ''iframe#menuIframe'', Query Page ''iframe[src*="dhcp"]'',
                ContentFrame 1, Query Page ''iframe[src*="bbsp"]'', ContentFrame 2]\<rparr>)\<close>
  by (simp add: lookup_def twoFrames_def staticPage_def start_def caught_def
      getContentFrame_def frameSelectors_def query_def observe_def contentFrame_def)


lemma world_observe [simp]: "world (observe c s) = world s"
  by (simp add: observe_def)

lemma clickFirst_versions:
  "fst (clickFirst B c sels wait s) = fst (clickFirst_part000 B c sels wait s) \<and>
   map untimed (trace (snd (clickFirst B c sels wait s))) =
     map untimed (trace (snd (clickFirst_part000 B c sels wait s)))"
  by (induction sels arbitrary: s)
     (auto simp: query_def caught_def click_def sleep_def perform_def
           split: promise.splits option.splits)

lemma waitAndTypeFirst_versions:
  "\<forall>sel\<in>set (takeWhile (\<lambda>sel. lookup B (world s) c sel = None) sels).
      e_query B (world s) c sel \<noteq> Rejected \<Longrightarrow>
   fst (waitAndTypeFirst B c sels v s) = fst (waitAndTypeFirst_part000 B c sels v s) \<and>
   map untimed (trace (snd (waitAndTypeFirst B c sels v s))) =
     map untimed (trace (snd (waitAndTypeFirst_part000 B c sels v s)))"
proof (induction sels arbitrary: s)
  case Nil
  then show ?case by simp
next
  case (Cons sel sels)
  show ?case
  proof (cases "e_query B (world s) c sel")
    case Rejected
    with Cons.prems show ?thesis by (simp add: lookup_def caught_def)
  next
    case (Resolved r)
    show ?thesis
    proof (cases r)
      case None
      with Resolved Cons.prems
      have "\<forall>x\<in>set (takeWhile (\<lambda>x. lookup B (world (observe (Query c sel) s)) c x = None) sels).
              e_query B (world (observe (Query c sel) s)) c x \<noteq> Rejected"
        by (simp add: lookup_def caught_def)
      from Cons.IH [OF this] Resolved None show ?thesis
        by (simp add: query_def caught_def andThen_def await_def)
    next
      case (Some el)
      with Resolved show ?thesis
        by (simp add: query_def caught_def andThen_def await_def typeText_def click_def
            perform_def)
    qed
  qed
qed

text \<open>
  Where the two versions agree: \<open>clickFirst\<close> of src/index.js and of
  src/unnamed/part_000 return the same boolean and make the same calls up to timing on
  every input, also when queries reject; \<open>waitAndTypeFirst\<close> does so whenever no query
  made before the first match rejects.
\<close>

lemma cascade_versions_agree:
  "fst (clickFirst B c sels wait s) = fst (clickFirst_part000 B c sels wait s) \<and>
   map untimed (trace (snd (clickFirst B c sels wait s))) =
     map untimed (trace (snd (clickFirst_part000 B c sels wait s))) \<and>
   ((\<forall>sel\<in>set (takeWhile (\<lambda>sel. lookup B (world s) c sel = None) sels).
       e_query B (world s) c sel \<noteq> Rejected) \<longrightarrow>
    fst (waitAndTypeFirst B c sels v s) = fst (waitAndTypeFirst_part000 B c sels v s) \<and>
    map untimed (trace (snd (waitAndTypeFirst B c sels v s))) =
      map untimed (trace (snd (waitAndTypeFirst_part000 B c sels v s))))"
  using clickFirst_versions [of B c sels wait s] waitAndTypeFirst_versions [of B s c sels v]
  by blast

text \<open>
  C10. The two versions of \<open>waitAndTypeFirst\<close> differ on a list with a malformed
  pattern: on \<open>malformedPage\<close> the one of src/index.js skips the rejected query, types
  into the next match and returns true; the one of src/unnamed/part_000 raises at the
  rejected query and types nothing.
\<close>

theorem typing_cascade_versions_differ:
  "waitAndTypeFirst malformedPage Page [''input[name='', ''input#Password''] ''secret'' start =
     (Inr True,
      \<lparr>world = (),
       trace = [Query Page ''input[name='', Query Page ''input#Password'', Click 1 3,
                TypeText 1 ''secret'' 10]\<rparr>) \<and>
   waitAndTypeFirst_part000 malformedPage Page [''input[name='', ''input#Password''] ''secret''
     start =
     (Inl EngineError, \<lparr>world = (), trace = [Query Page ''input[name='']\<rparr>)"
  by (simp add: malformedPage_def staticPage_def start_def caught_def await_def andThen_def
      click_def perform_def query_def observe_def typeText_def)

text \<open>
  C9. In src/unnamed/part_000 \<open>waitAndTypeFirst\<close> awaits \<open>page.$(sel)\<close> outside any
  \<open>try\<close>: the rejected query of a malformed pattern ends the cascade with the engine's
  error, before the later candidate that matches is tried.
\<close>

theorem part000_typing_cascade_raises:
  "e_query malformedPage () Page ''input[name='' = Rejected \<and>
   e_query malformedPage () Page ''input#Password'' = Resolved (Some 1) \<and>
   fst (waitAndTypeFirst_part000 malformedPage Page
          [''input#txt_Password'', ''input[name='', ''input#Password''] ''secret'' start) =
     Inl EngineError \<and>
   trace (snd (waitAndTypeFirst_part000 malformedPage Page
          [''input#txt_Password'', ''input[name='', ''input#Password''] ''secret'' start)) =
     [Query Page ''input#txt_Password'', Query Page ''input[name='']"
  by (simp add: malformedPage_def staticPage_def start_def caught_def await_def andThen_def
      click_def perform_def query_def observe_def typeText_def)

section \<open>Properties of the field writers\<close>

lemma updateElement_nth:
  "i < length (d_elements d) \<Longrightarrow> d_elements (updateElement i f d) ! i = f (d_elements d ! i)"
  by (simp add: updateElement_def)

lemma updateElement_length [simp]:
  "length (d_elements (updateElement i f d)) = length (d_elements d)"
  by (simp add: updateElement_def)

lemma sanitize_empty [simp]: "sanitize el [] = []"
  by (simp add: sanitize_def validFloat_def)

lemma sanitize_same_element [simp]:
  "sanitize (el\<lparr>el_value := x\<rparr>) v = sanitize el v"
  "sanitize (el\<lparr>el_log := y\<rparr>) v = sanitize el v"
  by (simp_all add: sanitize_def inputType_def)

lemma sanitize_text:
  "el_tag el = ''input'' \<Longrightarrow> inputType el = ''text'' \<Longrightarrow> \<forall>c\<in>set v. \<not> lineBreak c \<Longrightarrow>
   sanitize el v = v"
  by (simp add: sanitize_def)

text \<open>
  The heuristic writer: \<open>setVal\<close> on an element leaves the assigned value (\<open>v\<close> as the
  input's type keeps it) and dispatches input for the cleared state, then input and
  change for the new value.
\<close>

lemma setVal_writes:
  assumes "i < length (d_elements d)"
  shows "fst (setVal (Some i) v d) = True \<and>
         el_value (d_elements (snd (setVal (Some i) v d)) ! i) = sanitize (d_elements d ! i) v \<and>
         el_log (d_elements (snd (setVal (Some i) v d)) ! i) =
           el_log (d_elements d ! i) @
             [(Focus, el_value (d_elements d ! i)), (InputEvent, []),
              (InputEvent, sanitize (d_elements d ! i) v),
              (ChangeEvent, sanitize (d_elements d ! i) v)]"
  using assms by (simp add: setVal_def Let_def updateElement_nth notify_def assign_def)

text \<open>The label writer: the same sequence without the change event.\<close>

lemma labelWrite_writes:
  assumes "i < length (d_elements d)"
  shows "el_value (d_elements (labelWrite i v d) ! i) = sanitize (d_elements d ! i) v \<and>
         el_log (d_elements (labelWrite i v d) ! i) =
           el_log (d_elements d ! i) @
             [(Focus, el_value (d_elements d ! i)), (InputEvent, []),
              (InputEvent, sanitize (d_elements d ! i) v)]"
  using assms by (simp add: labelWrite_def Let_def updateElement_nth notify_def assign_def)

lemma setInputByLabel_loop_write:
  "setInputByLabel_loop ls labelText v d = (True, d') \<Longrightarrow>
   \<exists>l\<in>set ls. \<exists>i. labelTarget d l = Some i \<and> d' = labelWrite i v d"
  by (induction ls) (auto split: if_splits option.splits)

text \<open>
  The heuristic scan on \<open>twoInputs\<close> falls back to the position: the first input gets
  the primary value, the other one the secondary value, each with a change event.
\<close>

lemma twoInputs_facts:
  "textLikeInput inputA" "textLikeInput inputB" "looksLikeDns inputA" "looksLikeDns inputB"
  "\<not> rxPrimary (fieldText inputA)" "\<not> rxPrimary (fieldText inputB)"
  "\<not> rxSecondary (fieldText inputA)" "\<not> rxSecondary (fieldText inputB)"
  "sanitize inputA ''1.1.1.1'' = ''1.1.1.1''" "sanitize inputB ''1.0.0.1'' = ''1.0.0.1''"
  "el_log inputA = []" "el_log inputB = []"
  by code_simp+

lemma heuristic_positional:
  "fst (setDnsByHeuristic_dom ''1.1.1.1'' ''1.0.0.1'' twoInputs) = (True, True) \<and>
   map el_value (d_elements (snd (setDnsByHeuristic_dom ''1.1.1.1'' ''1.0.0.1'' twoInputs))) =
     [''1.1.1.1'', ''1.0.0.1''] \<and>
   map (\<lambda>e. map fst (el_log e))
     (d_elements (snd (setDnsByHeuristic_dom ''1.1.1.1'' ''1.0.0.1'' twoInputs))) =
     [[Focus, InputEvent, InputEvent, ChangeEvent], [Focus, InputEvent, InputEvent, ChangeEvent]]"
  by (simp add: setDnsByHeuristic_dom_def twoInputs_def twoInputs_facts setVal_def
      updateElement_def notify_def assign_def upt_rec [of 0] upt_rec [of 1])

text \<open>
  C2. On \<open>labelDoc\<close> the label writer finds the input through the label's parent and
  leaves the value \<open>1.1.1.1\<close>, but the element has seen two input events and no change
  event: \<open>setInputByLabel\<close> never dispatches \<open>change\<close>.
\<close>

theorem label_writer_dispatches_no_change:
  "fst (setInputByLabel_dom ''Primary DNS Server'' ''1.1.1.1'' labelDoc) = True \<and>
   el_value (d_elements (snd (setInputByLabel_dom ''Primary DNS Server'' ''1.1.1.1'' labelDoc)) ! 0)
     = ''1.1.1.1'' \<and>
   el_log (d_elements (snd (setInputByLabel_dom ''Primary DNS Server'' ''1.1.1.1'' labelDoc)) ! 0)
     = [(Focus, ''192.168.1.1''), (InputEvent, []), (InputEvent, ''1.1.1.1'')]"
  by code_simp

section \<open>Properties of setDnsValues\<close>














lemma typed_Nil: "typed B fr [] v w = (Fails, w)"
  by (simp add: typed_def)

lemma typed_Cons:
  "typed B fr (sel # sels) v w =
     (case lookup B w fr sel of
        Some el \<Rightarrow>
          (let w1 = e_step B (Click el 3) w in
           (if e_type B w1 el v then Passes else Raises, e_step B (TypeText el v 10) w1))
      | None \<Rightarrow> typed B fr sels v w)"
  by (simp add: typed_def split: option.splits)

lemma waitAndTypeFirst_typed:
  "fst (waitAndTypeFirst B fr sels v s) = reported (fst (typed B fr sels v (world s))) \<and>
   world (snd (waitAndTypeFirst B fr sels v s)) = snd (typed B fr sels v (world s))"
proof (induction sels arbitrary: s)
  case Nil
  show ?case by (simp add: typed_Nil)
next
  case (Cons sel sels)
  show ?case
  proof (cases "lookup B (world s) fr sel")
    case None
    then show ?thesis
      using Cons.IH [of "observe (Query fr sel) s"]
      by (simp add: typed_Cons query_def lookup_def observe_def)
  next
    case (Some el)
    then show ?thesis
      by (simp add: typed_Cons query_def lookup_def observe_def click_def typeText_def
          perform_def andThen_def)
  qed
qed

lemma setInputByLabel_chain_labelled:
  "fst (setInputByLabel_chain B fr ls v s) = reported (fst (labelled B fr ls v (world s))) \<and>
   world (snd (setInputByLabel_chain B fr ls v s)) = snd (labelled B fr ls v (world s))"
proof (induction ls arbitrary: s)
  case Nil
  show ?case by simp
next
  case (Cons l ls)
  show ?case
  proof (cases "e_evalBool B (world s) fr (SetInputByLabel l v)")
    case Rejected
    then show ?thesis
      by (simp add: setInputByLabel_def evaluateBool_def await_def andThen_def perform_def)
  next
    case (Resolved wrote)
    then show ?thesis
      using Cons.IH [of "perform B (Evaluate fr (SetInputByLabel l v)) s"]
      by (cases wrote)
         (simp_all add: setInputByLabel_def evaluateBool_def await_def andThen_def perform_def)
  qed
qed

lemma tiers_fields:
  "fst (setDnsValues_tiers B fr d1 d2 s) =
     (case fst (fieldsAfterTiers B fr d1 d2 (world s)) of
        None \<Rightarrow> Inl EngineError
      | Some (p, q) \<Rightarrow> Inr (p \<noteq> Unresolved, q \<noteq> Unresolved)) \<and>
   world (snd (setDnsValues_tiers B fr d1 d2 s)) = snd (fieldsAfterTiers B fr d1 d2 (world s))"
proof -
  obtain p1 w1 where t1: "typed B fr primaryDns d1 (world s) = (p1, w1)"
    by (cases "typed B fr primaryDns d1 (world s)")
  obtain r1 sA where m1: "waitAndTypeFirst B fr primaryDns d1 s = (r1, sA)"
    by (cases "waitAndTypeFirst B fr primaryDns d1 s")
  from waitAndTypeFirst_typed [of B fr primaryDns d1 s] t1 m1
  have a: "r1 = reported p1" "world sA = w1" by simp_all
  obtain q1 w2 where t2:
    "(if d2 = [] then (Passes, w1) else typed B fr secondaryDns d2 w1) = (q1, w2)"
    by (cases "if d2 = [] then (Passes, w1) else typed B fr secondaryDns d2 w1")
  obtain r2 sB where m2:
    "(if d2 \<noteq> [] then waitAndTypeFirst B fr secondaryDns d2 sA else (Inr True, sA)) = (r2, sB)"
    by (cases "if d2 \<noteq> [] then waitAndTypeFirst B fr secondaryDns d2 sA else (Inr True, sA)")
  from waitAndTypeFirst_typed [of B fr secondaryDns d2 sA] t2 m2 a(2)
  have b: "r2 = reported q1" "world sB = w2" by (auto split: if_splits)
  obtain p2 w3 where t3:
    "(if p1 = Fails then labelled B fr primaryLabels d1 w2 else (Fails, w2)) = (p2, w3)"
    by (cases "if p1 = Fails then labelled B fr primaryLabels d1 w2 else (Fails, w2)")
  obtain r3 sC where m3:
    "(if p1 \<noteq> Passes then setInputByLabel_chain B fr primaryLabels d1 sB
      else (Inr (p1 = Passes), sB)) = (r3, sC)"
    by (cases "if p1 \<noteq> Passes then setInputByLabel_chain B fr primaryLabels d1 sB
               else (Inr (p1 = Passes), sB)")
  have c: "p1 \<noteq> Raises \<Longrightarrow> r3 = reported (if p1 = Passes then Passes else p2)"
      "p1 \<noteq> Raises \<Longrightarrow> world sC = w3"
    using setInputByLabel_chain_labelled [of B fr primaryLabels d1 sB] t3 m3 b(2)
    by (cases p1; auto)+
  obtain q2 w4 where t4:
    "(if q1 = Fails then labelled B fr secondaryLabels d2 w3 else (Fails, w3)) = (q2, w4)"
    by (cases "if q1 = Fails then labelled B fr secondaryLabels d2 w3 else (Fails, w3)")
  obtain r4 sD where m4:
    "(if q1 \<noteq> Passes \<and> d2 \<noteq> [] then setInputByLabel_chain B fr secondaryLabels d2 sC
      else (Inr (q1 = Passes), sC)) = (r4, sD)"
    by (cases "if q1 \<noteq> Passes \<and> d2 \<noteq> [] then setInputByLabel_chain B fr secondaryLabels d2 sC
               else (Inr (q1 = Passes), sC)")
  have q1d: "d2 = [] \<Longrightarrow> q1 = Passes" using t2 by simp
  have d: "p1 \<noteq> Raises \<Longrightarrow> q1 \<noteq> Raises \<Longrightarrow> r4 = reported (if q1 = Passes then Passes else q2)"
      "p1 \<noteq> Raises \<Longrightarrow> q1 \<noteq> Raises \<Longrightarrow> world sD = w4"
    using setInputByLabel_chain_labelled [of B fr secondaryLabels d2 sC] t4 m4 c(2) q1d
    by (cases q1; cases "d2 = []"; auto)+
  show ?thesis
  proof (cases "p1 = Raises")
    case True
    with t1 m1 a show ?thesis
      by (simp add: setDnsValues_tiers_def dnsTier1_def andThen_def fieldsAfterTiers_def)
  next
    case p1: False
    show ?thesis
    proof (cases "q1 = Raises")
      case True
      with p1 t1 m1 a t2 m2 b show ?thesis
        by (cases p1)
           (simp_all add: setDnsValues_tiers_def dnsTier1_def andThen_def fieldsAfterTiers_def)
    next
      case q1: False
      have tier1: "dnsTier1 B fr d1 d2 s = (Inr (p1 = Passes, q1 = Passes), sB)"
        using p1 q1 m1 a m2 b by (cases p1; cases q1) (simp_all add: dnsTier1_def andThen_def)
      define P where "P = (if p1 = Passes then Passes else p2)"
      define Q where "Q = (if q1 = Passes then Passes else q2)"
      have r3: "r3 = reported P" "world sC = w3" using c p1 by (simp_all add: P_def)
      have r4: "r4 = reported Q" "world sD = w4" using d p1 q1 by (simp_all add: Q_def)
      have p2: "p1 = Passes \<Longrightarrow> p2 = Fails" using t3 by simp
      have q2: "q1 = Passes \<Longrightarrow> q2 = Fails" using t4 by simp
      show ?thesis
      proof (cases "P = Raises")
        case True
        then have p2r: "p2 = Raises" using p2 by (cases "p1 = Passes") (simp_all add: P_def)
        have "dnsTier2 B fr d1 d2 (p1 = Passes) (q1 = Passes) sB = (Inl EngineError, sC)"
          using m3 r3 True by (simp add: dnsTier2_def andThen_def)
        with tier1 t1 t2 t3 p1 q1 p2r r3 show ?thesis
          by (simp add: setDnsValues_tiers_def andThen_def fieldsAfterTiers_def)
      next
        case Pn: False
        then have p2n: "p2 \<noteq> Raises" using p2 by (cases "p1 = Passes") (simp_all add: P_def)
        show ?thesis
        proof (cases "Q = Raises")
          case True
          then have q2r: "q2 = Raises" using q2 by (cases "q1 = Passes") (simp_all add: Q_def)
          have "dnsTier2 B fr d1 d2 (p1 = Passes) (q1 = Passes) sB = (Inl EngineError, sD)"
            using m3 r3 Pn m4 r4 True by (cases P) (simp_all add: dnsTier2_def andThen_def)
          with tier1 t1 t2 t3 t4 p1 q1 p2n q2r r4 show ?thesis
            by (simp add: setDnsValues_tiers_def andThen_def fieldsAfterTiers_def)
        next
          case Qn: False
          then have q2n: "q2 \<noteq> Raises" using q2 by (cases "q1 = Passes") (simp_all add: Q_def)
          have tier2: "dnsTier2 B fr d1 d2 (p1 = Passes) (q1 = Passes) sB =
              (Inr (P = Passes, Q = Passes), sD)"
            using m3 r3 Pn m4 r4 Qn
            by (cases P; cases Q) (simp_all add: dnsTier2_def andThen_def)
          have PP: "P = Passes \<longleftrightarrow> p1 = Passes \<or> p2 = Passes" by (simp add: P_def)
          have QQ: "Q = Passes \<longleftrightarrow> q1 = Passes \<or> q2 = Passes" by (simp add: Q_def)
          obtain h1 h2 where h: "caught (False, d2 = []) (e_heuristic B w4 fr d1 d2) = (h1, h2)"
            by (cases "caught (False, d2 = []) (e_heuristic B w4 fr d1 d2)")
          from tier1 tier2 t1 t2 t3 t4 p1 q1 p2n q2n r4 h PP QQ q1d show ?thesis
            by (auto simp: setDnsValues_tiers_def andThen_def fieldsAfterTiers_def dnsTier3_def
                setDnsByHeuristic_def perform_def Let_def)
        qed
      qed
    qed
  qed
qed

text \<open>
  C4 (amended). \<open>setDnsValues\<close> raises "content frame not found" when no content frame
  is located. When the frame is located, let the three tiers run on the engine from the
  world left by the manual-mode step. If a call of the tiers raises (a rejected typing
  into a matched field, a rejected label evaluation), \<open>setDnsValues\<close> raises that error,
  whichever field it concerned. Otherwise, leaving aside a rejected dump of the inputs
  in debug mode, it raises if and only if no tier resolved the primary field, with the
  error "primary DNS field not located"; how the secondary field ended plays no part.
\<close>

theorem setDnsValues_raises:
  "(fst (getContentFrame B page s) = None \<longrightarrow>
      fst (setDnsValues B page d1 d2 dbg s) = Inl ContentFrameNotFound) \<and>
   (getContentFrame B page s = (Some fr, s1) \<longrightarrow>
      (case fieldsAfterTiers B fr d1 d2
              (world (sleep B 300 (snd (ensureManualDns B fr s1)))) of
         (None, w) \<Rightarrow> fst (setDnsValues B page d1 d2 dbg s) = Inl EngineError
       | (Some (primary, secondary), w) \<Rightarrow>
           fst (setDnsValues B page d1 d2 dbg s) =
             (if dbg \<and> (primary = Unresolved \<or> secondary = Unresolved) \<and>
                 e_evalBool B w fr DumpInputs = Rejected
              then Inl EngineError
              else if primary = Unresolved then Inl PrimaryDnsFieldNotLocated
              else Inr ())))"
proof (intro conjI impI)
  assume "fst (getContentFrame B page s) = None"
  then show "fst (setDnsValues B page d1 d2 dbg s) = Inl ContentFrameNotFound"
    by (cases "getContentFrame B page s") (simp add: setDnsValues_def)
next
  assume f: "getContentFrame B page s = (Some fr, s1)"
  let ?s3 = "sleep B 300 (snd (ensureManualDns B fr s1))"
  obtain r s4 where t: "setDnsValues_tiers B fr d1 d2 ?s3 = (r, s4)"
    by (cases "setDnsValues_tiers B fr d1 d2 ?s3")
  obtain x w where fa: "fieldsAfterTiers B fr d1 d2 (world ?s3) = (x, w)"
    by (cases "fieldsAfterTiers B fr d1 d2 (world ?s3)")
  from tiers_fields [of B fr d1 d2 ?s3] t fa
  have r: "r = (case x of None \<Rightarrow> Inl EngineError
                | Some (p, q) \<Rightarrow> Inr (p \<noteq> Unresolved, q \<noteq> Unresolved))"
    and w: "world s4 = w" by simp_all
  have q: "\<And>p q. x = Some (p, q) \<Longrightarrow> d2 = [] \<Longrightarrow> q \<noteq> Unresolved"
    using fa
    by (auto simp: fieldsAfterTiers_def Let_def split: prod.splits if_splits)
  show "case fieldsAfterTiers B fr d1 d2 (world ?s3) of
         (None, w) \<Rightarrow> fst (setDnsValues B page d1 d2 dbg s) = Inl EngineError
       | (Some (primary, secondary), w) \<Rightarrow>
           fst (setDnsValues B page d1 d2 dbg s) =
             (if dbg \<and> (primary = Unresolved \<or> secondary = Unresolved) \<and>
                 e_evalBool B w fr DumpInputs = Rejected
              then Inl EngineError
              else if primary = Unresolved then Inl PrimaryDnsFieldNotLocated
              else Inr ())"
  proof (cases x)
    case None
    with f t r fa show ?thesis by (simp add: setDnsValues_def Let_def andThen_def)
  next
    case (Some pq)
    obtain p q' where pq: "pq = (p, q')" by (cases pq)
    from q Some pq have "d2 = [] \<Longrightarrow> q' \<noteq> Unresolved" by simp
    with f t r fa Some pq w show ?thesis
      by (cases "e_evalBool B w fr DumpInputs")
         (auto simp: setDnsValues_def Let_def andThen_def evaluateBool_def await_def)
  qed
qed

theorem setDnsValues_raises_witness:
  "fieldsAfterTiers emptyFramePage (Frame 0) ''1.1.1.1'' ''1.0.0.1'' () =
     (Some (Unresolved, Unresolved), ()) \<and>
   fst (setDnsValues emptyFramePage Page ''1.1.1.1'' ''1.0.0.1'' False start) =
     Inl PrimaryDnsFieldNotLocated \<and>
   fieldsAfterTiers dhcpPage (Frame 0) ''1.1.1.1'' ''1.0.0.1'' () =
     (Some (BySelector, BySelector), ()) \<and>
   fst (setDnsValues dhcpPage Page ''1.1.1.1'' ''1.0.0.1'' False start) = Inr () \<and>
   fieldsAfterTiers labelledPage (Frame 0) ''1.1.1.1'' ''1.0.0.1'' () =
     (Some (ByLabel, Unresolved), ()) \<and>
   fst (setDnsValues labelledPage Page ''1.1.1.1'' ''1.0.0.1'' False start) = Inr () \<and>
   fieldsAfterTiers heuristicPage (Frame 0) ''1.1.1.1'' ''1.0.0.1'' () =
     (Some (ByHeuristic, Unresolved), ()) \<and>
   fst (setDnsValues heuristicPage Page ''1.1.1.1'' ''1.0.0.1'' False start) = Inr () \<and>
   fst (fieldsAfterTiers dhcpPageTypingFails (Frame 0) ''1.1.1.1'' ''1.0.0.1'' ()) = None \<and>
   fst (setDnsValues (staticPage (\<lambda>c sel. Resolved None) (\<lambda>h. Resolved None)) Page
          ''1.1.1.1'' ''1.0.0.1'' False start) = Inl ContentFrameNotFound"
proof -
  note ev = spec_defs page_defs table_defs caught_def
  have f1: "getContentFrame emptyFramePage Page start =
      (Some (Frame 0), snd (getContentFrame emptyFramePage Page start))"
    by (simp add: prod_eq_iff run_defs)
  have a: "fieldsAfterTiers emptyFramePage (Frame 0) ''1.1.1.1'' ''1.0.0.1'' () =
     (Some (Unresolved, Unresolved), ())"
    by (simp add: ev)
  have a': "fst (setDnsValues emptyFramePage Page ''1.1.1.1'' ''1.0.0.1'' False start) =
     Inl PrimaryDnsFieldNotLocated"
    using setDnsValues_raises [where B = emptyFramePage and page = Page and s = start
        and ?d1.0 = "''1.1.1.1''" and ?d2.0 = "''1.0.0.1''" and dbg = False
        and fr = "Frame 0" and ?s1.0 = "snd (getContentFrame emptyFramePage Page start)"] f1 a
    by simp
  have f2: "getContentFrame dhcpPage Page start =
      (Some (Frame 0), snd (getContentFrame dhcpPage Page start))"
    by (simp add: prod_eq_iff run_defs)
  have b: "fieldsAfterTiers dhcpPage (Frame 0) ''1.1.1.1'' ''1.0.0.1'' () =
     (Some (BySelector, BySelector), ())"
    by (simp add: ev)
  have b': "fst (setDnsValues dhcpPage Page ''1.1.1.1'' ''1.0.0.1'' False start) = Inr ()"
    using setDnsValues_raises [where B = dhcpPage and page = Page and s = start
        and ?d1.0 = "''1.1.1.1''" and ?d2.0 = "''1.0.0.1''" and dbg = False
        and fr = "Frame 0" and ?s1.0 = "snd (getContentFrame dhcpPage Page start)"] f2 b
    by simp
  have f3: "getContentFrame labelledPage Page start =
      (Some (Frame 0), snd (getContentFrame labelledPage Page start))"
    by (simp add: prod_eq_iff run_defs)
  have c: "fieldsAfterTiers labelledPage (Frame 0) ''1.1.1.1'' ''1.0.0.1'' () =
     (Some (ByLabel, Unresolved), ())"
    by (simp add: ev)
  have c': "fst (setDnsValues labelledPage Page ''1.1.1.1'' ''1.0.0.1'' False start) = Inr ()"
    using setDnsValues_raises [where B = labelledPage and page = Page and s = start
        and ?d1.0 = "''1.1.1.1''" and ?d2.0 = "''1.0.0.1''" and dbg = False
        and fr = "Frame 0" and ?s1.0 = "snd (getContentFrame labelledPage Page start)"] f3 c
    by simp
  have f4: "getContentFrame heuristicPage Page start =
      (Some (Frame 0), snd (getContentFrame heuristicPage Page start))"
    by (simp add: prod_eq_iff run_defs)
  have d: "fieldsAfterTiers heuristicPage (Frame 0) ''1.1.1.1'' ''1.0.0.1'' () =
     (Some (ByHeuristic, Unresolved), ())"
    by (simp add: ev)
  have d': "fst (setDnsValues heuristicPage Page ''1.1.1.1'' ''1.0.0.1'' False start) = Inr ()"
    using setDnsValues_raises [where B = heuristicPage and page = Page and s = start
        and ?d1.0 = "''1.1.1.1''" and ?d2.0 = "''1.0.0.1''" and dbg = False
        and fr = "Frame 0" and ?s1.0 = "snd (getContentFrame heuristicPage Page start)"] f4 d
    by simp
  have e: "fst (fieldsAfterTiers dhcpPageTypingFails (Frame 0) ''1.1.1.1'' ''1.0.0.1'' ()) = None"
    by (simp add: ev)
  have g: "fst (setDnsValues (staticPage (\<lambda>c sel. Resolved None) (\<lambda>h. Resolved None)) Page
          ''1.1.1.1'' ''1.0.0.1'' False start) = Inl ContentFrameNotFound"
    using setDnsValues_raises [where B = "staticPage (\<lambda>c sel. Resolved None) (\<lambda>h. Resolved None)"
        and page = Page and s = start and ?d1.0 = "''1.1.1.1''" and ?d2.0 = "''1.0.0.1''"
        and dbg = False]
    by (simp add: run_defs)
  from a a' b b' c c' d d' e g show ?thesis by simp
qed


text \<open>
  C4 as stated fails: on \<open>dhcpPageTypingFails\<close> tier 1 finds and types the primary field,
  then typing into the secondary field the cascade found rejects, and \<open>setDnsValues\<close>
  raises the engine's error although the primary field is set. Without a secondary value
  the same call returns normally.
\<close>

theorem setDnsValues_raises_counterexample:
  "fst (waitAndTypeFirst dhcpPageTypingFails (Frame 0) primaryDns ''1.1.1.1''
          (sleep dhcpPageTypingFails 300
             (snd (ensureManualDns dhcpPageTypingFails (Frame 0)
                     (snd (getContentFrame dhcpPageTypingFails Page start)))))) = Inr True \<and>
   fst (setDnsValues dhcpPageTypingFails Page ''1.1.1.1'' ''1.0.0.1'' False start) =
     Inl EngineError \<and>
   fst (setDnsValues dhcpPageTypingFails Page ''1.1.1.1'' [] False start) = Inr ()"
  by (simp add: run_defs)
section \<open>Properties of saveChanges and of the run\<close>

lemma clickFirst_firstMatch:
  "clickFirst B c sels wait s =
     (case firstMatch B (world s) c sels of
        None \<Rightarrow> (False, replay B (map (Query c) sels) s)
      | Some (asked, el) \<Rightarrow>
          (True, replay B (map (Query c) asked @ Click el 1 # (if wait then [Sleep 300] else [])) s))"
proof (induction sels arbitrary: s)
  case Nil
  show ?case by simp
next
  case (Cons sel sels)
  show ?case
  proof (cases "lookup B (world s) c sel")
    case None
    then show ?thesis
      using Cons.IH [of "replay B [Query c sel] s"]
      by (simp add: query_replay lookup_def replay_Cons [of _ "Query c sel" "_ # _"]
            replay_Cons [of _ "Query c sel" "map _ _"]
            replay_Cons [of _ "Query c sel" "_ @ _"] split: option.splits)
  next
    case (Some el)
    then show ?thesis
      by (simp add: query_replay lookup_def click_def sleep_def perform_replay
          replay_def)
  qed
qed

lemma clickByTextInContext_calls:
  "clickByTextInContext B c t s =
     (if e_evalBool B (world s) c (ClickByTextInContext (toLowerCase t)) = Resolved True
      then (True, replay B [Evaluate c (ClickByTextInContext (toLowerCase t)), Sleep 300] s)
      else (False, replay B [Evaluate c (ClickByTextInContext (toLowerCase t))] s))"
  by (cases "e_evalBool B (world s) c (ClickByTextInContext (toLowerCase t))")
     (simp_all add: clickByTextInContext_def evaluateBool_def caught_def sleep_def perform_def
       replay_def Let_def)

lemma textChain_applySequence:
  "applySequence B c (map TextMatch ws @ rest) s =
     (let (ok, s1) = clickByTextInContext_chain B c ws s in
      if ok then (True, s1) else applySequence B c rest s1)"
proof (induction ws arbitrary: s)
  case Nil
  show ?case by simp
next
  case (Cons w ws)
  show ?case
    using Cons.IH
    by (simp add: clickByTextInContext_calls sleep_def perform_def replay_def)
qed

lemma saveChanges_applySequence:
  "saveChanges B c s = applySequence B c applyOrder (replay B [Evaluate c OverrideDialogs] s)"
proof -
  have order: "applyOrder = FixedId # Cascade # map TextMatch applyWords @ [GlobalApply]"
    by (simp add: applyOrder_def applyWords_def)
  let ?s1 = "replay B [Evaluate c OverrideDialogs] s"
  have p: "perform B (Evaluate c OverrideDialogs) s = ?s1" by (simp add: perform_replay)
  show ?thesis
  proof (cases "lookup B (world ?s1) c ''#btnApply_ex''")
    case (Some el)
    then show ?thesis
      unfolding order
      by (simp add: saveChanges_def p query_replay lookup_def click_def sleep_def perform_def
          replay_def)
  next
    case None
    let ?s2 = "replay B [Query c ''#btnApply_ex''] ?s1"
    show ?thesis
    proof (cases "firstMatch B (world ?s2) c saveButtons")
      case (Some m)
      obtain asked el where m: "m = (asked, el)" by (cases m)
      with None Some show ?thesis
        unfolding order
        by (simp add: saveChanges_def p query_replay lookup_def clickFirst_firstMatch sleep_def
            perform_def replay_def)
    next
      case n: None
      let ?s3 = "replay B (map (Query c) saveButtons) ?s2"
      obtain ok s4 where t: "clickByTextInContext_chain B c applyWords ?s3 = (ok, s4)"
        by (cases "clickByTextInContext_chain B c applyWords ?s3")
      from None n t show ?thesis
        unfolding order
        by (cases "e_evalBool B (world s4) c InvokeApplyConfig")
           (simp_all add: saveChanges_def p query_replay lookup_def clickFirst_firstMatch
            textChain_applySequence evaluateBool_def caught_def sleep_def perform_def replay_def)
    qed
  qed
qed

lemma main_after_save_result:
  "fst (main_after_save B a saved s) = (if saved then Inr () else Inl SaveButtonNotFound)"
  by (simp add: main_after_save_def Let_def split: prod.splits)

lemma main_outcome:
  assumes "main_login B a s0 = (Inr (), s1)" and "main_configure B a s1 = (Inr saved, s2)"
  shows "fst (main B a s0) =
           (if saved then (Updated (a_dns1 a) (a_dns2 a), 0) else (Failed SaveButtonNotFound, 1))"
proof -
  obtain r s3 where m: "main_after_save B a saved s2 = (r, s3)"
    by (cases "main_after_save B a saved s2")
  with main_after_save_result [of B a saved s2]
  have r: "r = (if saved then Inr () else Inl SaveButtonNotFound)" by simp
  show ?thesis using assms m r by (simp add: main_def andThen_def)
qed

lemma navigateToDns_path:
  "navigateToDns B page dbg s = (Inr (Some p), s') \<Longrightarrow> p \<noteq> []"
  by (auto simp: navigateToDns_def andThen_def Let_def evaluateBool_def
      split: prod.splits sum.splits if_splits option.splits)

lemma lower_words:
  "toLowerCase ''Apply'' = ''apply''" "toLowerCase ''Save'' = ''save''"
  "toLowerCase ''Guardar'' = ''guardar''" "toLowerCase ''Aplicar'' = ''aplicar''"
  "toLowerCase ''Submit'' = ''submit''" "toLowerCase ''OK'' = ''ok''"
  by code_simp+

text \<open>
  C5. \<open>saveChanges\<close>, after overriding the dialog functions, is exactly the
  specification's sequence over the engine's answers: it asks for \<open>#btnApply_ex\<close>, then
  for the save patterns in order, then has the page look for the words Apply, Save,
  Guardar, Aplicar, Submit, OK in order, and last invokes \<open>ApplyConfig\<close>; the first
  attempt that finds its control clicks it, lets the page settle and ends the sequence
  with true, no later attempt being made, and the result is false when all have failed.
  A run that logged in, reached the DNS page and wrote the fields reports success when
  the sequence, run in the content frame (or the page when there is none), succeeds, and
  ends with the error "no save control found" and exit code 1 when it is exhausted.
\<close>

theorem saveChanges_order:
  "saveChanges B c s = applySequence B c applyOrder (replay B [Evaluate c OverrideDialogs] s) \<and>
   (main_login B a s0 = (Inr (), s1) \<and>
    navigateToDns B Page (a_debug a) s1 = (Inr (Some p), s2) \<and>
    setDnsValues B Page (a_dns1 a) (a_dns2 a) (a_debug a)
      (if a_debug a then snd (getContentFrame B Page s2) else s2) = (Inr (), s3) \<and>
    getContentFrame B Page s3 = (cf, s4) \<and>
    fst (applySequence B (case cf of Some f \<Rightarrow> f | None \<Rightarrow> Page) applyOrder
           (replay B [Evaluate (case cf of Some f \<Rightarrow> f | None \<Rightarrow> Page) OverrideDialogs] s4)) =
      saved \<longrightarrow>
      fst (main B a s0) =
        (if saved then (Updated (a_dns1 a) (a_dns2 a), 0) else (Failed SaveButtonNotFound, 1)))"
proof (intro conjI impI)
  show "saveChanges B c s = applySequence B c applyOrder (replay B [Evaluate c OverrideDialogs] s)"
    by (rule saveChanges_applySequence)
next
  let ?c = "case cf of Some f \<Rightarrow> f | None \<Rightarrow> Page"
  assume h: "main_login B a s0 = (Inr (), s1) \<and>
    navigateToDns B Page (a_debug a) s1 = (Inr (Some p), s2) \<and>
    setDnsValues B Page (a_dns1 a) (a_dns2 a) (a_debug a)
      (if a_debug a then snd (getContentFrame B Page s2) else s2) = (Inr (), s3) \<and>
    getContentFrame B Page s3 = (cf, s4) \<and>
    fst (applySequence B ?c applyOrder (replay B [Evaluate ?c OverrideDialogs] s4)) = saved"
  then have p: "p \<noteq> []" by (auto dest: navigateToDns_path)
  from h have sv: "fst (saveChanges B ?c s4) = saved"
    by (simp add: saveChanges_applySequence)
  from h p sv have "main_configure B a s1 = (Inr saved, snd (saveChanges B ?c s4))"
    by (auto simp: main_configure_def andThen_def Let_def split: prod.splits)
  with h main_outcome [of B a s0 s1 saved "snd (saveChanges B ?c s4)"]
  show "fst (main B a s0) =
        (if saved then (Updated (a_dns1 a) (a_dns2 a), 0) else (Failed SaveButtonNotFound, 1))"
    by simp
qed

theorem saveChanges_order_witness:
  \<open>saveChanges applyConfigPage (Frame 0) start =
     (True,
      \<lparr>world = (),
       trace =
         [Evaluate (Frame 0) OverrideDialogs, Query (Frame 0) ''#btnApply_ex'']
         @ map (Query (Frame 0)) saveButtons
         @ [Evaluate (Frame 0) (ClickByTextInContext ''apply''),
            Evaluate (Frame 0) (ClickByTextInContext ''save''),
            Evaluate (Frame 0) (ClickByTextInContext ''guardar''),
            Evaluate (Frame 0) (ClickByTextInContext ''aplicar''),
            Evaluate (Frame 0) (ClickByTextInContext ''submit''),
            Evaluate (Frame 0) (ClickByTextInContext ''ok''),
            Evaluate (Frame 0) InvokeApplyConfig, Sleep 300]\<rparr>) \<and>
   saveChanges saveCascadePage (Frame 0) start =
     (True,
      \<lparr>world = (),
       trace =
         [Evaluate (Frame 0) OverrideDialogs, Query (Frame 0) ''#btnApply_ex'',
          Query (Frame 0) ''button#btnApply_ex'',
          Query (Frame 0) ''button[name="btnApply_ex"]'',
          Query (Frame 0) ''button#btnApply'', Click 31 1, Sleep 300, Sleep 300]\<rparr>) \<and>
   saveChanges saveTextPage (Frame 0) start =
     (True,
      \<lparr>world = (),
       trace =
         [Evaluate (Frame 0) OverrideDialogs, Query (Frame 0) ''#btnApply_ex'']
         @ map (Query (Frame 0)) saveButtons
         @ [Evaluate (Frame 0) (ClickByTextInContext ''apply''),
            Evaluate (Frame 0) (ClickByTextInContext ''save''), Sleep 300, Sleep 300]\<rparr>) \<and>
   fst (saveChanges routerPage (Frame 0) start) = True \<and>
   trace (snd (saveChanges routerPage (Frame 0) start)) =
     [Evaluate (Frame 0) OverrideDialogs, Query (Frame 0) ''#btnApply_ex'', Click 30 1, Sleep 300] \<and>
   fst (main_login noSavePage runArgs start) = Inr () \<and>
   fst (saveChanges noSavePage (Frame 0)
          (snd (getContentFrame noSavePage Page
                  (snd (setDnsValues noSavePage Page ''1.1.1.1'' ''1.0.0.1'' False
                          (snd (navigateToDns noSavePage Page False
                                  (snd (main_login noSavePage runArgs start))))))))) = False \<and>
   fst (main noSavePage runArgs start) = (Failed SaveButtonNotFound, 1)\<close>
proof -
  note ev = lower_words applyOrder_def spec_defs caught_def page_defs saveButtons_def
  have a: "saveChanges applyConfigPage (Frame 0) start =
     (True,
      \<lparr>world = (),
       trace =
         [Evaluate (Frame 0) OverrideDialogs, Query (Frame 0) ''#btnApply_ex'']
         @ map (Query (Frame 0)) saveButtons
         @ [Evaluate (Frame 0) (ClickByTextInContext ''apply''),
            Evaluate (Frame 0) (ClickByTextInContext ''save''),
            Evaluate (Frame 0) (ClickByTextInContext ''guardar''),
            Evaluate (Frame 0) (ClickByTextInContext ''aplicar''),
            Evaluate (Frame 0) (ClickByTextInContext ''submit''),
            Evaluate (Frame 0) (ClickByTextInContext ''ok''),
            Evaluate (Frame 0) InvokeApplyConfig, Sleep 300]\<rparr>)"
    using saveChanges_order [where B = applyConfigPage and c = "Frame 0" and s = start]
    by (simp add: ev)
  have b: \<open>saveChanges saveCascadePage (Frame 0) start =
     (True,
      \<lparr>world = (),
       trace =
         [Evaluate (Frame 0) OverrideDialogs, Query (Frame 0) ''#btnApply_ex'',
          Query (Frame 0) ''button#btnApply_ex'',
          Query (Frame 0) ''button[name="btnApply_ex"]'',
          Query (Frame 0) ''button#btnApply'', Click 31 1, Sleep 300, Sleep 300]\<rparr>)\<close>
    using saveChanges_order [where B = saveCascadePage and c = "Frame 0" and s = start]
    by (simp add: ev)
  have c: "saveChanges saveTextPage (Frame 0) start =
     (True,
      \<lparr>world = (),
       trace =
         [Evaluate (Frame 0) OverrideDialogs, Query (Frame 0) ''#btnApply_ex'']
         @ map (Query (Frame 0)) saveButtons
         @ [Evaluate (Frame 0) (ClickByTextInContext ''apply''),
            Evaluate (Frame 0) (ClickByTextInContext ''save''), Sleep 300, Sleep 300]\<rparr>)"
    using saveChanges_order [where B = saveTextPage and c = "Frame 0" and s = start]
    by (simp add: ev)
  have d: "saveChanges routerPage (Frame 0) start =
     (True, \<lparr>world = (), trace = [Evaluate (Frame 0) OverrideDialogs,
        Query (Frame 0) ''#btnApply_ex'', Click 30 1, Sleep 300]\<rparr>)"
    using saveChanges_order [where B = routerPage and c = "Frame 0" and s = start]
    by (simp add: ev)
  let ?s1 = "snd (main_login noSavePage runArgs start)"
  let ?s2 = "snd (navigateToDns noSavePage Page False ?s1)"
  let ?s3 = "snd (setDnsValues noSavePage Page ''1.1.1.1'' ''1.0.0.1'' False ?s2)"
  let ?s4 = "snd (getContentFrame noSavePage Page ?s3)"
  have l: "fst (main_login noSavePage runArgs start) = Inr ()" by (simp add: run_defs)
  then have l': "main_login noSavePage runArgs start = (Inr (), ?s1)"
    by (simp add: prod_eq_iff)
  have n: "navigateToDns noSavePage Page (a_debug runArgs) ?s1 =
      (Inr (Some ''iframe-dhcp-no-title''), ?s2)"
    by (simp add: prod_eq_iff run_defs)
  have v: "setDnsValues noSavePage Page (a_dns1 runArgs) (a_dns2 runArgs) (a_debug runArgs)
      (if a_debug runArgs then snd (getContentFrame noSavePage Page ?s2) else ?s2) =
      (Inr (), ?s3)"
    by (simp add: prod_eq_iff run_defs)
  have f: "getContentFrame noSavePage Page ?s3 = (Some (Frame 0), ?s4)"
    by (simp add: prod_eq_iff run_defs)
  have sv: "fst (saveChanges noSavePage (Frame 0) ?s4) = False"
    by (simp add: run_defs)
  have q: "fst (applySequence noSavePage (Frame 0) applyOrder
           (replay noSavePage [Evaluate (Frame 0) OverrideDialogs] ?s4)) = False"
    using saveChanges_order [where B = noSavePage and c = "Frame 0" and s = ?s4] sv by simp
  have m: "fst (main noSavePage runArgs start) = (Failed SaveButtonNotFound, 1)"
    using saveChanges_order [where B = noSavePage and a = runArgs and ?s0.0 = start
        and ?s1.0 = ?s1 and p = "''iframe-dhcp-no-title''" and ?s2.0 = ?s2 and ?s3.0 = ?s3
        and cf = "Some (Frame 0)" and ?s4.0 = ?s4 and saved = False] l' n v f q
    by simp
  from a b c d l sv m show ?thesis by simp
qed




section \<open>Properties of navigateToDns\<close>


lemma waitAndTypeFirst_error:
  "waitAndTypeFirst B c sels v s = (Inl e, s') \<Longrightarrow> e = EngineError"
  by (induction sels arbitrary: s)
     (auto simp: query_def typeText_def andThen_def Let_def split: option.splits if_splits)

lemma setInputByLabel_chain_error:
  "setInputByLabel_chain B c ls v s = (Inl e, s') \<Longrightarrow> e = EngineError"
  by (induction ls arbitrary: s)
     (auto simp: setInputByLabel_def evaluateBool_def await_def andThen_def
           split: promise.splits if_splits)

lemma dnsTier1_error: "dnsTier1 B c d1 d2 s = (Inl e, s') \<Longrightarrow> e = EngineError"
  by (auto simp: dnsTier1_def andThen_def split: prod.splits sum.splits if_splits
      dest: waitAndTypeFirst_error)

lemma dnsTier2_error: "dnsTier2 B c d1 d2 ok1 ok2 s = (Inl e, s') \<Longrightarrow> e = EngineError"
  by (auto simp: dnsTier2_def andThen_def split: prod.splits sum.splits if_splits
      dest: setInputByLabel_chain_error)

lemma setDnsValues_tiers_error:
  "setDnsValues_tiers B c d1 d2 s = (Inl e, s') \<Longrightarrow> e = EngineError"
  by (auto simp: setDnsValues_tiers_def andThen_def split: prod.splits sum.splits
      dest: dnsTier1_error dnsTier2_error)

lemma setDnsValues_error:
  assumes "setDnsValues B page d1 d2 dbg s = (Inl e, s')"
  shows "e = ContentFrameNotFound \<or> e = EngineError \<or> e = PrimaryDnsFieldNotLocated"
proof (cases "getContentFrame B page s")
  case (Pair frame s1)
  show ?thesis
  proof (cases frame)
    case None
    with Pair assms show ?thesis by (simp add: setDnsValues_def)
  next
    case (Some fr)
    let ?s3 = "sleep B 300 (snd (ensureManualDns B fr s1))"
    obtain r s4 where t: "setDnsValues_tiers B fr d1 d2 ?s3 = (r, s4)"
      by (cases "setDnsValues_tiers B fr d1 d2 ?s3")
    show ?thesis
    proof (cases r)
      case (Inl e')
      with t have "e' = EngineError" by (auto dest: setDnsValues_tiers_error)
      with Pair Some t Inl assms show ?thesis
        by (simp add: setDnsValues_def Let_def andThen_def)
    next
      case (Inr oks)
      with Pair Some t assms show ?thesis
        by (cases oks)
           (auto simp: setDnsValues_def Let_def andThen_def evaluateBool_def await_def
                 split: if_splits promise.splits)
    qed
  qed
qed

lemma main_configure_not_reached:
  assumes "navigateToDns B Page (a_debug a) s = (Inr p, s')"
  shows "fst (main_configure B a s) = Inl DnsPageNotReached \<longleftrightarrow> p = None \<or> p = Some []"
proof (cases "p = None \<or> p = Some []")
  case True
  with assms show ?thesis by (auto simp: main_configure_def andThen_def)
next
  case False
  let ?s2 = "if a_debug a then snd (getContentFrame B Page s') else s'"
  obtain r s3 where d: "setDnsValues B Page (a_dns1 a) (a_dns2 a) (a_debug a) ?s2 = (r, s3)"
    by (cases "setDnsValues B Page (a_dns1 a) (a_dns2 a) (a_debug a) ?s2")
  have "fst (main_configure B a s) \<noteq> Inl DnsPageNotReached"
  proof (cases r)
    case (Inl e)
    with d have "e \<noteq> DnsPageNotReached" by (auto dest: setDnsValues_error)
    with assms False d Inl show ?thesis
      by (simp add: main_configure_def andThen_def Let_def)
  next
    case (Inr u)
    with assms False d show ?thesis
      by (simp add: main_configure_def andThen_def Let_def split: prod.splits)
  qed
  with False show ?thesis by simp
qed

lemma main_not_reached:
  assumes "main_login B a s0 = (Inr (), s)"
  shows "fst (main B a s0) = (Failed DnsPageNotReached, 1) \<longleftrightarrow>
         fst (main_configure B a s) = Inl DnsPageNotReached"
proof (cases "main_configure B a s")
  case (Pair r s2)
  show ?thesis
  proof (cases r)
    case (Inl e)
    with assms Pair show ?thesis by (simp add: main_def andThen_def)
  next
    case (Inr saved)
    with assms Pair main_outcome [of B a s0 s saved s2] show ?thesis by simp
  qed
qed

lemma clickMenu_transition:
  "clickMenu B page fixedId label s =
     (reported (fst (transition B page fixedId label (world s))),
      replay B (snd (transition B page fixedId label (world s))) s)"
proof (cases "lookup B (world s) page fixedId")
  case (Some el)
  then show ?thesis
    by (simp add: clickMenu_def transition_def query_replay lookup_def click_def perform_def
        replay_def)
next
  case None
  then show ?thesis
    by (cases "e_evalBool B (world s) page (ClickByText label)")
       (simp_all add: clickMenu_def transition_def query_replay lookup_def clickByText_def
         evaluateBool_def await_def andThen_def sleep_def perform_def replay_def)
qed

lemma getContentFrame_loop_frameSearch:
  "getContentFrame_loop B page sels s =
     (map_option Frame (fst (frameSearch B (world s) page sels)),
      replay B (snd (frameSearch B (world s) page sels)) s)"
proof (induction sels arbitrary: s)
  case Nil
  show ?case by simp
next
  case (Cons sel sels)
  have w1: "world (replay B [Query page sel] s) = world s" by (simp add: replay_def)
  show ?case
  proof (cases "lookup B (world s) page sel")
    case None
    then show ?thesis
      using Cons.IH [of "replay B [Query page sel] s"]
      by (simp add: query_replay lookup_def w1 split: prod.splits)
         (simp add: replay_def)
  next
    case (Some h)
    have w2: "world (replay B [ContentFrame h] (replay B [Query page sel] s)) = world s"
      by (simp add: replay_def)
    have cf: "contentFrame B h (replay B [Query page sel] s) =
        (e_contentFrame B (world s) h, replay B [ContentFrame h] (replay B [Query page sel] s))"
      by (simp add: contentFrame_def observe_def replay_def)
    show ?thesis
    proof (cases "caught None (e_contentFrame B (world s) h)")
      case (Some fr)
      with \<open>lookup B (world s) page sel = Some h\<close> show ?thesis
        by (simp add: query_replay lookup_def cf) (simp add: replay_def)
    next
      case None
      with \<open>lookup B (world s) page sel = Some h\<close> show ?thesis
        using Cons.IH [of "replay B [ContentFrame h] (replay B [Query page sel] s)"]
        by (simp add: query_replay lookup_def cf w2 split: prod.splits)
           (simp add: replay_def)
    qed
  qed
qed

lemma walk_Cons:
  "walk B page ((fixedId, label, settle) # ts) s =
     (case reported (fst (transition B page fixedId label (world s))) of
        Inr True \<Rightarrow>
          walk B page ts (replay B settle (snd (clickMenu B page fixedId label s)))
      | r \<Rightarrow> (fst (transition B page fixedId label (world s)),
              snd (clickMenu B page fixedId label s)))"
proof -
  obtain res cs where t: "transition B page fixedId label (world s) = (res, cs)"
    by (cases "transition B page fixedId label (world s)")
  then show ?thesis
    by (cases res) (simp_all add: clickMenu_transition replay_append)
qed

lemma locate_and_confirm:
  "(let (frame, s4) = getContentFrame B page s3 in
    case frame of
      None \<Rightarrow> (Inr None, s4)
    | Some fr \<Rightarrow>
        (let s5 = perform B (WaitForSelector fr ''#dhcp2title'' 8000) s4;
             (t, s6) = evaluateBool B fr TitleCheck s5;
             okTitle = caught False t
         in (Inr (Some (if okTitle then ''iframe-dhcp'' else ''iframe-dhcp-no-title'')), s6))) =
   (case frameSearch B (world s3) page frameSelectors of
      (None, cs) \<Rightarrow> (Inr None, replay B cs s3)
    | (Some fr, cs) \<Rightarrow>
        (Inr (Some (if e_evalBool B
                         (world (replay B
                            (cs @ [WaitForSelector (Frame fr) ''#dhcp2title'' 8000]) s3))
                         (Frame fr) TitleCheck = Resolved True
                    then ''iframe-dhcp'' else ''iframe-dhcp-no-title'')),
         replay B
           (cs @ [WaitForSelector (Frame fr) ''#dhcp2title'' 8000,
                  Evaluate (Frame fr) TitleCheck]) s3))"
proof -
  obtain f cs where fs: "frameSearch B (world s3) page frameSelectors = (f, cs)"
    by (cases "frameSearch B (world s3) page frameSelectors")
  show ?thesis
  proof (cases f)
    case None
    with fs show ?thesis
      by (simp add: getContentFrame_def getContentFrame_loop_frameSearch)
  next
    case (Some fr)
    with fs show ?thesis
      by (cases "e_evalBool B
                   (world (replay B (cs @ [WaitForSelector (Frame fr) ''#dhcp2title'' 8000]) s3))
                   (Frame fr) TitleCheck")
         (simp_all add: getContentFrame_def getContentFrame_loop_frameSearch evaluateBool_def
           caught_def perform_def replay_def)
  qed
qed

lemma navigateToDns_walk:
  "navigateToDns B page dbg s =
     (case walk B page (menuPath page) s of
        (Raises, s3) \<Rightarrow> (Inl EngineError, s3)
      | (Fails, s3) \<Rightarrow> (Inr None, s3)
      | (Passes, s3) \<Rightarrow>
          (case frameSearch B (world s3) page frameSelectors of
             (None, cs) \<Rightarrow> (Inr None, replay B cs s3)
           | (Some fr, cs) \<Rightarrow>
               (Inr (Some (if e_evalBool B
                                (world (replay B
                                   (cs @ [WaitForSelector (Frame fr) ''#dhcp2title'' 8000]) s3))
                                (Frame fr) TitleCheck = Resolved True
                           then ''iframe-dhcp'' else ''iframe-dhcp-no-title'')),
                replay B
                  (cs @ [WaitForSelector (Frame fr) ''#dhcp2title'' 8000,
                         Evaluate (Frame fr) TitleCheck]) s3)))"
proof -
  let ?t1 = "transition B page ''#addconfig'' ''Advanced Configuration'' (world s)"
  let ?c1 = "clickMenu B page ''#addconfig'' ''Advanced Configuration'' s"
  let ?sa = "replay B [Sleep 400] (snd ?c1)"
  let ?t2 = "transition B page ''#lanconfig'' ''LAN'' (world ?sa)"
  let ?c2 = "clickMenu B page ''#lanconfig'' ''LAN'' ?sa"
  let ?sb = "replay B [WaitForSelector page ''#lanconfig_menu'' 3000, Sleep 200] (snd ?c2)"
  let ?t3 = "transition B page ''#landhcp'' ''DHCP Server'' (world ?sb)"
  let ?c3 = "clickMenu B page ''#landhcp'' ''DHCP Server'' ?sb"
  have sa: "sleep B 400 (snd ?c1) = ?sa" by (simp add: sleep_def perform_def replay_def)
  have sb: "sleep B 200 (perform B (WaitForSelector page ''#lanconfig_menu'' 3000) (snd ?c2)) = ?sb"
    by (simp add: sleep_def perform_def replay_def)
  note fin = locate_and_confirm
  show ?thesis
  proof (cases "fst ?t1")
    case Raises
    then show ?thesis
      by (simp add: navigateToDns_def menuPath_def walk_Cons andThen_def
          clickMenu_transition [of B page "''#addconfig''"] del: walk.simps(2))
  next
    case Fails
    then show ?thesis
      by (simp add: navigateToDns_def menuPath_def walk_Cons andThen_def
          clickMenu_transition [of B page "''#addconfig''"] del: walk.simps(2))
  next
    case p1: Passes
    then have c1: "?c1 = (Inr True, snd ?c1)"
      by (simp add: clickMenu_transition [of B page "''#addconfig''"])
    show ?thesis
    proof (cases "fst ?t2")
      case Raises
      then have c2: "?c2 = (Inl EngineError, snd ?c2)"
        by (simp add: clickMenu_transition [of B page "''#lanconfig''"])
      from p1 Raises show ?thesis
        unfolding navigateToDns_def menuPath_def
        by (subst c1, simp only: andThen_def prod.case sum.case simp_thms if_False sa,
            subst c2, simp add: walk_Cons del: walk.simps(2))
    next
      case Fails
      then have c2: "?c2 = (Inr False, snd ?c2)"
        by (simp add: clickMenu_transition [of B page "''#lanconfig''"])
      from p1 Fails show ?thesis
        unfolding navigateToDns_def menuPath_def
        by (subst c1, simp only: andThen_def prod.case sum.case simp_thms if_False sa,
            subst c2, simp add: walk_Cons del: walk.simps(2))
    next
      case p2: Passes
      then have c2: "?c2 = (Inr True, snd ?c2)"
        by (simp add: clickMenu_transition [of B page "''#lanconfig''"])
      show ?thesis
      proof (cases "fst ?t3")
        case Raises
        then have c3: "?c3 = (Inl EngineError, snd ?c3)"
          by (simp add: clickMenu_transition [of B page "''#landhcp''"])
        from p1 p2 Raises show ?thesis
          unfolding navigateToDns_def menuPath_def
          by (subst c1, simp only: andThen_def prod.case sum.case simp_thms if_False sa,
              subst c2, simp only: prod.case sum.case simp_thms if_False sb,
              subst c3, simp add: walk_Cons del: walk.simps(2))
      next
        case Fails
        then have c3: "?c3 = (Inr False, snd ?c3)"
          by (simp add: clickMenu_transition [of B page "''#landhcp''"])
        from p1 p2 Fails show ?thesis
          unfolding navigateToDns_def menuPath_def
          by (subst c1, simp only: andThen_def prod.case sum.case simp_thms if_False sa,
              subst c2, simp only: prod.case sum.case simp_thms if_False sb,
              subst c3, simp add: walk_Cons del: walk.simps(2))
      next
        case p3: Passes
        then have c3: "?c3 = (Inr True, snd ?c3)"
          by (simp add: clickMenu_transition [of B page "''#landhcp''"])
        from p1 p2 p3 show ?thesis
          unfolding navigateToDns_def menuPath_def
          by (subst c1, simp only: andThen_def prod.case sum.case simp_thms if_False sa,
              subst c2, simp only: prod.case sum.case simp_thms if_False sb,
              subst c3, simp only: prod.case sum.case simp_thms if_False fin,
              simp add: walk_Cons del: walk.simps(2))
      qed
    qed
  qed
qed

text \<open>
  C8 (amended). \<open>navigateToDns\<close> takes the three transitions in order, each once: the
  element with the fixed identifier when the page has it, else the text matcher with the
  label, each followed by its settle calls. When a transition finds neither, navigation
  stops there and returns null (a rejected evaluation of the text matcher is raised), and
  it returns null too when the three have passed and no content frame is located. Only after the three transitions and the location of the
  frame does it wait (bounded, 8000) for \<open>#dhcp2title\<close> in that frame and check the
  title; it then returns \<open>iframe-dhcp\<close> when the check confirms the title and
  \<open>iframe-dhcp-no-title\<close> when it does not: an unconfirmed title is still reported as a
  reached path. After a successful login, the run aborts with "could not reach DNS page"
  exactly when the navigation returned null.
\<close>

theorem navigation_outcome:
  "navigateToDns B page dbg s =
     (case walk B page (menuPath page) s of
        (Raises, s3) \<Rightarrow> (Inl EngineError, s3)
      | (Fails, s3) \<Rightarrow> (Inr None, s3)
      | (Passes, s3) \<Rightarrow>
          (case frameSearch B (world s3) page frameSelectors of
             (None, cs) \<Rightarrow> (Inr None, replay B cs s3)
           | (Some fr, cs) \<Rightarrow>
               (Inr (Some (if e_evalBool B
                                (world (replay B
                                   (cs @ [WaitForSelector (Frame fr) ''#dhcp2title'' 8000]) s3))
                                (Frame fr) TitleCheck = Resolved True
                           then ''iframe-dhcp'' else ''iframe-dhcp-no-title'')),
                replay B
                  (cs @ [WaitForSelector (Frame fr) ''#dhcp2title'' 8000,
                         Evaluate (Frame fr) TitleCheck]) s3))) \<and>
   (main_login B a s0 = (Inr (), s1) \<and> navigateToDns B Page (a_debug a) s1 = (Inr p, s2) \<longrightarrow>
      (fst (main B a s0) = (Failed DnsPageNotReached, 1) \<longleftrightarrow> p = None))"
proof (intro conjI impI)
  show "navigateToDns B page dbg s =
     (case walk B page (menuPath page) s of
        (Raises, s3) \<Rightarrow> (Inl EngineError, s3)
      | (Fails, s3) \<Rightarrow> (Inr None, s3)
      | (Passes, s3) \<Rightarrow>
          (case frameSearch B (world s3) page frameSelectors of
             (None, cs) \<Rightarrow> (Inr None, replay B cs s3)
           | (Some fr, cs) \<Rightarrow>
               (Inr (Some (if e_evalBool B
                                (world (replay B
                                   (cs @ [WaitForSelector (Frame fr) ''#dhcp2title'' 8000]) s3))
                                (Frame fr) TitleCheck = Resolved True
                           then ''iframe-dhcp'' else ''iframe-dhcp-no-title'')),
                replay B
                  (cs @ [WaitForSelector (Frame fr) ''#dhcp2title'' 8000,
                         Evaluate (Frame fr) TitleCheck]) s3)))"
    by (rule navigateToDns_walk)
next
  assume h: "main_login B a s0 = (Inr (), s1) \<and> navigateToDns B Page (a_debug a) s1 = (Inr p, s2)"
  then have l: "main_login B a s0 = (Inr (), s1)"
    and n: "navigateToDns B Page (a_debug a) s1 = (Inr p, s2)" by simp_all
  have "p \<noteq> Some []" using n by (auto dest: navigateToDns_path)
  with main_not_reached [OF l] main_configure_not_reached [OF n]
  show "fst (main B a s0) = (Failed DnsPageNotReached, 1) \<longleftrightarrow> p = None" by simp
qed

theorem navigation_outcome_witness:
  "navigateToDns titledPage Page False start =
     (Inr (Some ''iframe-dhcp''),
      \<lparr>world = (),
       trace =
         [Query Page ''#addconfig'', Click 20 1, Sleep 400,
          Query Page ''#lanconfig'', Click 21 1,
          WaitForSelector Page ''#lanconfig_menu'' 3000, Sleep 200,
          Query Page ''#landhcp'', Click 22 1,
          Query Page ''iframe#menuIframe'', ContentFrame 1,
          WaitForSelector (Frame 0) ''#dhcp2title'' 8000, Evaluate (Frame 0) TitleCheck]\<rparr>) \<and>
   navigateToDns menuTextPage Page False start =
     (Inr None,
      \<lparr>world = (),
       trace =
         [Query Page ''#addconfig'', Evaluate Page (ClickByText ''Advanced Configuration''),
          Sleep 300, Sleep 400,
          Query Page ''#lanconfig'', Evaluate Page (ClickByText ''LAN'')]\<rparr>) \<and>
   navigateToDns noFramePage Page False start =
     (Inr None,
      \<lparr>world = (),
       trace =
         [Query Page ''#addconfig'', Click 20 1, Sleep 400,
          Query Page ''#lanconfig'', Click 21 1,
          WaitForSelector Page ''#lanconfig_menu'' 3000, Sleep 200,
          Query Page ''#landhcp'', Click 22 1]
         @ map (Query Page) frameSelectors\<rparr>) \<and>
   fst (main_login titledPage runArgs start) = Inr () \<and>
   fst (navigateToDns titledPage Page False (snd (main_login titledPage runArgs start))) =
     Inr (Some ''iframe-dhcp'') \<and>
   fst (main titledPage runArgs start) \<noteq> (Failed DnsPageNotReached, 1) \<and>
   fst (main_login menuTextPage runArgs start) = Inr () \<and>
   fst (navigateToDns menuTextPage Page False (snd (main_login menuTextPage runArgs start))) =
     Inr None \<and>
   fst (main menuTextPage runArgs start) = (Failed DnsPageNotReached, 1)"
proof -
  note ev = spec_defs page_defs caught_def frameSelectors_def
  have a: "navigateToDns titledPage Page False start =
     (Inr (Some ''iframe-dhcp''),
      \<lparr>world = (),
       trace =
         [Query Page ''#addconfig'', Click 20 1, Sleep 400,
          Query Page ''#lanconfig'', Click 21 1,
          WaitForSelector Page ''#lanconfig_menu'' 3000, Sleep 200,
          Query Page ''#landhcp'', Click 22 1,
          Query Page ''iframe#menuIframe'', ContentFrame 1,
          WaitForSelector (Frame 0) ''#dhcp2title'' 8000, Evaluate (Frame 0) TitleCheck]\<rparr>)"
    using navigation_outcome [where B = titledPage and page = Page and dbg = False and s = start]
    by (simp add: ev)
  have b: "navigateToDns menuTextPage Page False start =
     (Inr None,
      \<lparr>world = (),
       trace =
         [Query Page ''#addconfig'', Evaluate Page (ClickByText ''Advanced Configuration''),
          Sleep 300, Sleep 400,
          Query Page ''#lanconfig'', Evaluate Page (ClickByText ''LAN'')]\<rparr>)"
    using navigation_outcome [where B = menuTextPage and page = Page and dbg = False and s = start]
    by (simp add: ev)
  have c: "navigateToDns noFramePage Page False start =
     (Inr None,
      \<lparr>world = (),
       trace =
         [Query Page ''#addconfig'', Click 20 1, Sleep 400,
          Query Page ''#lanconfig'', Click 21 1,
          WaitForSelector Page ''#lanconfig_menu'' 3000, Sleep 200,
          Query Page ''#landhcp'', Click 22 1]
         @ map (Query Page) frameSelectors\<rparr>)"
    using navigation_outcome [where B = noFramePage and page = Page and dbg = False
        and s = start]
    by (simp add: ev)
  let ?s1 = "snd (main_login titledPage runArgs start)"
  let ?n = "navigateToDns titledPage Page False ?s1"
  have l: "fst (main_login titledPage runArgs start) = Inr ()" by (simp add: run_defs)
  then have l': "main_login titledPage runArgs start = (Inr (), ?s1)"
    by (simp add: prod_eq_iff)
  have n: "fst ?n = Inr (Some ''iframe-dhcp'')" by (simp add: run_defs)
  then have n': "navigateToDns titledPage Page (a_debug runArgs) ?s1 =
      (Inr (Some ''iframe-dhcp''), snd ?n)"
    by (simp add: prod_eq_iff runArgs_def)
  have m: "fst (main titledPage runArgs start) \<noteq> (Failed DnsPageNotReached, 1)"
    using navigation_outcome [where B = titledPage and a = runArgs and ?s0.0 = start
        and ?s1.0 = ?s1 and p = "Some ''iframe-dhcp''" and ?s2.0 = "snd ?n"] l' n'
    by simp
  let ?t1 = "snd (main_login menuTextPage runArgs start)"
  let ?k = "navigateToDns menuTextPage Page False ?t1"
  have l2: "fst (main_login menuTextPage runArgs start) = Inr ()" by (simp add: run_defs)
  then have l2': "main_login menuTextPage runArgs start = (Inr (), ?t1)"
    by (simp add: prod_eq_iff)
  have k: "fst ?k = Inr None" by (simp add: run_defs)
  then have k': "navigateToDns menuTextPage Page (a_debug runArgs) ?t1 = (Inr None, snd ?k)"
    by (simp add: prod_eq_iff runArgs_def)
  have m2: "fst (main menuTextPage runArgs start) = (Failed DnsPageNotReached, 1)"
    using navigation_outcome [where B = menuTextPage and a = runArgs and ?s0.0 = start
        and ?s1.0 = ?t1 and p = None and ?s2.0 = "snd ?k"] l2' k'
    by simp
  from a b c l n m l2 k m2 show ?thesis by simp
qed

text \<open>
  C8 as stated fails: on \<open>routerPage\<close> the title check does not confirm the destination,
  yet \<open>navigateToDns\<close> returns the path \<open>iframe-dhcp-no-title\<close> and the run goes on to
  write the fields and reports success.
\<close>

theorem navigation_outcome_counterexample:
  "e_evalBool routerPage () (Frame 0) TitleCheck = Resolved False \<and>
   fst (navigateToDns routerPage Page False (snd (main_login routerPage runArgs start))) =
     Inr (Some ''iframe-dhcp-no-title'') \<and>
   fst (main routerPage runArgs start) = (Updated ''1.1.1.1'' ''1.0.0.1'', 0)"
proof -
  let ?s1 = "snd (main_login routerPage runArgs start)"
  let ?s2 = "snd (main_configure routerPage runArgs ?s1)"
  have t: "e_evalBool routerPage () (Frame 0) TitleCheck = Resolved False"
    by (simp add: page_defs)
  have n: "fst (navigateToDns routerPage Page False ?s1) = Inr (Some ''iframe-dhcp-no-title'')"
    by (simp add: run_defs)
  have l: "main_login routerPage runArgs start = (Inr (), ?s1)"
    by (simp add: prod_eq_iff run_defs)
  have c: "main_configure routerPage runArgs ?s1 = (Inr True, ?s2)"
    by (simp add: prod_eq_iff run_defs)
  from main_outcome [OF l c] t n show ?thesis by (simp add: runArgs_def)
qed

section \<open>Properties of verifyDnsApplied\<close>


lemma navCount_perform [simp]:
  "navCount p (perform B c s) = navCount p s + (if c = Query p ''#addconfig'' then 1 else 0)"
  by (simp add: navCount_def perform_def)

lemma navCount_observe [simp]:
  "navCount p (observe c s) = navCount p s + (if c = Query p ''#addconfig'' then 1 else 0)"
  by (simp add: navCount_def observe_def)

lemma navCount_getContentFrame_loop:
  "''#addconfig'' \<notin> set sels \<Longrightarrow>
   navCount p (snd (getContentFrame_loop B page sels s)) = navCount p s"
  by (induction sels arbitrary: s)
     (auto simp: query_def contentFrame_def split: option.splits)

lemma addconfig_no_frame_selector: "''#addconfig'' \<notin> set frameSelectors"
  by (simp add: frameSelectors_def)

lemma navCount_getContentFrame [simp]:
  "navCount p (snd (getContentFrame B page s)) = navCount p s"
  unfolding getContentFrame_def
  by (rule navCount_getContentFrame_loop [OF addconfig_no_frame_selector])

lemma navCount_clickByText [simp]:
  "navCount p (snd (clickByText B page t s)) = navCount p s"
  by (simp add: clickByText_def evaluateBool_def andThen_def await_def sleep_def
      split: promise.splits)

lemma navCount_clickMenu:
  "navCount p (snd (clickMenu B page fixedId label s)) =
     navCount p s + (if Query page fixedId = Query p ''#addconfig'' then 1 else 0)"
  by (simp add: clickMenu_def query_def click_def split: option.splits)

lemma navCount_poll [simp]: "navCount p (snd (poll B page e1 e2 s)) = navCount p s"
proof -
  obtain frame s1 where f: "getContentFrame B page s = (frame, s1)"
    by (cases "getContentFrame B page s")
  with navCount_getContentFrame [of p B page s] have "navCount p s1 = navCount p s" by simp
  with f show ?thesis
    by (simp add: poll_def readDnsValuesFromFrame_def split: option.splits prod.splits)
qed


lemma navCount_navigateToDns [simp]:
  "navCount page (snd (navigateToDns B page dbg s)) = navCount page s + 1"
proof -
  let ?m1 = "clickMenu B page ''#addconfig'' ''Advanced Configuration'' s"
  have n1: "navCount page (snd ?m1) = navCount page s + 1"
    by (simp add: navCount_clickMenu)
  show ?thesis
  proof (cases "fst ?m1 = Inr True")
    case False
    then have "snd (navigateToDns B page dbg s) = snd ?m1"
      by (cases ?m1) (auto simp: navigateToDns_def andThen_def split: sum.splits)
    with n1 show ?thesis by simp
  next
    case True
    let ?m2 = "clickMenu B page ''#lanconfig'' ''LAN'' (sleep B 400 (snd ?m1))"
    have n2: "navCount page (snd ?m2) = navCount page s + 1"
      using n1 by (simp add: navCount_clickMenu sleep_def)
    show ?thesis
    proof (cases "fst ?m2 = Inr True")
      case False
      with True have "snd (navigateToDns B page dbg s) = snd ?m2"
        by (cases ?m1; cases ?m2) (auto simp: navigateToDns_def andThen_def split: sum.splits)
      with n2 show ?thesis by simp
    next
      case m2: True
      let ?m3 = "clickMenu B page ''#landhcp'' ''DHCP Server''
                  (sleep B 200 (perform B (WaitForSelector page ''#lanconfig_menu'' 3000) (snd ?m2)))"
      have n3: "navCount page (snd ?m3) = navCount page s + 1"
        using n2 by (simp add: navCount_clickMenu sleep_def)
      show ?thesis
      proof (cases "fst ?m3 = Inr True")
        case False
        with True m2 have "snd (navigateToDns B page dbg s) = snd ?m3"
          by (cases ?m1; cases ?m2; cases ?m3)
             (auto simp: navigateToDns_def andThen_def split: sum.splits)
        with n3 show ?thesis by simp
      next
        case m3: True
        let ?g = "getContentFrame B page (snd ?m3)"
        have n4: "navCount page (snd ?g) = navCount page s + 1"
          using n3 by simp
        from True m2 m3 have "navCount page (snd (navigateToDns B page dbg s)) =
            navCount page (snd ?g)"
          by (cases ?m1; cases ?m2; cases ?m3; cases ?g)
             (auto simp: navigateToDns_def andThen_def evaluateBool_def Let_def
                   split: sum.splits option.splits)
        with n4 show ?thesis by simp
      qed
    qed
  qed
qed


declare verifyDnsApplied_loop.simps [simp del]
declare unmatchedThrough.simps [simp del]

lemma loop_step:
  "i < retries \<Longrightarrow>
   verifyDnsApplied_loop B page e1 e2 retries d i s =
     (case poll B page e1 e2 s of
        (None, s1) \<Rightarrow> (False, s1)
      | (Some True, s2) \<Rightarrow> (True, s2)
      | (Some False, s2) \<Rightarrow>
          verifyDnsApplied_loop B page e1 e2 retries d (i + 1)
            (if i = retries - 2 then snd (navigateToDns B page False (sleep B d s2))
             else sleep B d s2))"
  by (subst verifyDnsApplied_loop.simps)
     (auto simp: poll_def Let_def split: prod.splits option.splits)

lemma loop_done:
  "\<not> i < retries \<Longrightarrow> verifyDnsApplied_loop B page e1 e2 retries d i s = (False, s)"
  by (subst verifyDnsApplied_loop.simps) simp

lemma last_retry:
  "verifyDnsApplied_loop B page e1 e2 retries d (retries - 1) s =
     (case poll B page e1 e2 s of
        (None, s1) \<Rightarrow> (False, s1)
      | (Some True, s2) \<Rightarrow> (True, s2)
      | (Some False, s2) \<Rightarrow> (False, sleep B d s2))"
  by (simp add: loop_step loop_done split: prod.splits option.splits bool.splits)

lemma navCount_last:
  "retries - 1 \<le> i \<Longrightarrow>
   navCount page (snd (verifyDnsApplied_loop B page e1 e2 retries d i s)) = navCount page s"
proof (cases "i < retries")
  case False
  then show ?thesis by (simp add: loop_done)
next
  case True
  assume "retries - 1 \<le> i"
  with True have i: "i = retries - 1" by simp
  obtain m s2 where p: "poll B page e1 e2 s = (m, s2)" by (cases "poll B page e1 e2 s")
  with navCount_poll [of page B page e1 e2 s] have "navCount page s2 = navCount page s" by simp
  with p show ?thesis unfolding i
    by (simp add: last_retry sleep_def split: option.splits bool.splits)
qed

lemma loop_through:
  "i \<le> k \<Longrightarrow> k = retries - 2 \<Longrightarrow>
   (case unmatchedThrough B page e1 e2 d i k s of
      None \<Rightarrow>
        navCount page (snd (verifyDnsApplied_loop B page e1 e2 retries d i s)) = navCount page s
    | Some s3 \<Rightarrow>
        verifyDnsApplied_loop B page e1 e2 retries d i s =
          verifyDnsApplied_loop B page e1 e2 retries d (retries - 1)
            (snd (navigateToDns B page False s3)) \<and>
        navCount page s3 = navCount page s)"
proof (induction B page e1 e2 d i k s rule: unmatchedThrough.induct)
  case (1 B page e1 e2 d i k s)
  from "1.prems" have lt: "i < retries" by simp
  obtain m s2 where p: "poll B page e1 e2 s = (m, s2)" by (cases "poll B page e1 e2 s")
  with navCount_poll [of page B page e1 e2 s] have n2: "navCount page s2 = navCount page s"
    by simp
  have u: "unmatchedThrough B page e1 e2 d i k s =
      (if m = Some False then
         (if i = k then Some (sleep B d s2)
          else unmatchedThrough B page e1 e2 d (i + 1) k (sleep B d s2))
       else None)"
    using "1.prems"(1) p
    by (simp add: unmatchedThrough.simps [of B page e1 e2 d i k s]
        split: option.splits bool.splits)
  have l: "verifyDnsApplied_loop B page e1 e2 retries d i s =
      (case m of
         None \<Rightarrow> (False, s2)
       | Some True \<Rightarrow> (True, s2)
       | Some False \<Rightarrow>
           verifyDnsApplied_loop B page e1 e2 retries d (i + 1)
             (if i = retries - 2 then snd (navigateToDns B page False (sleep B d s2))
              else sleep B d s2))"
    using lt p by (simp add: loop_step)
  show ?case
  proof (cases "m = Some False")
    case False
    then have "unmatchedThrough B page e1 e2 d i k s = None" using u by simp
    moreover from False n2
    have "navCount page (snd (verifyDnsApplied_loop B page e1 e2 retries d i s)) =
        navCount page s"
      unfolding l by (cases m) (auto split: bool.splits)
    ultimately show ?thesis by simp
  next
    case True
    show ?thesis
    proof (cases "i = k")
      case ik: True
      with True u have "unmatchedThrough B page e1 e2 d i k s = Some (sleep B d s2)" by simp
      moreover from True ik "1.prems"(2)
      have "verifyDnsApplied_loop B page e1 e2 retries d i s =
          verifyDnsApplied_loop B page e1 e2 retries d (retries - 1)
            (snd (navigateToDns B page False (sleep B d s2)))"
        unfolding l by simp
      moreover have "navCount page (sleep B d s2) = navCount page s"
        using n2 by (simp add: sleep_def)
      ultimately show ?thesis by simp
    next
      case ne: False
      with "1.prems" have le: "i + 1 \<le> k" by simp
      have ns: "navCount page (sleep B d s2) = navCount page s" using n2 by (simp add: sleep_def)
      from True have m: "m = Some False" .
      note ih = "1.IH" [OF "1.prems"(1) p [symmetric] m refl ne le "1.prems"(2)]
      from ne "1.prems" have nk: "i \<noteq> retries - 2" by simp
      from True ne u have u': "unmatchedThrough B page e1 e2 d i k s =
          unmatchedThrough B page e1 e2 d (i + 1) k (sleep B d s2)" by simp
      from True nk have l': "verifyDnsApplied_loop B page e1 e2 retries d i s =
          verifyDnsApplied_loop B page e1 e2 retries d (i + 1) (sleep B d s2)"
        unfolding l by simp
      from ih show ?thesis unfolding u' l' ns .
    qed
  qed
qed


text \<open>
  C7. In a call of \<open>verifyDnsApplied\<close> with \<open>retries\<close> retries: if the iterations
  \<open>0\<close> to \<open>retries - 2\<close> do not all find the frame with unmatched values, the menu
  navigator is not run at all. If they do, so that exactly one retry remains, the
  navigator is run exactly once, after the delay of iteration \<open>retries - 2\<close>, and the call
  ends with the one remaining poll: true when the values then match, false otherwise.
\<close>

theorem renavigation_once:
  "case unmatchedThrough B page e1 e2 d 0 (retries - 2) s of
     None \<Rightarrow>
       navCount page (snd (verifyDnsApplied B page e1 e2 retries d s)) = navCount page s
   | Some s3 \<Rightarrow>
       navCount page (snd (verifyDnsApplied B page e1 e2 retries d s)) = navCount page s + 1 \<and>
       verifyDnsApplied B page e1 e2 retries d s =
         (case poll B page e1 e2 (snd (navigateToDns B page False s3)) of
            (None, s5) \<Rightarrow> (False, s5)
          | (Some True, s5) \<Rightarrow> (True, s5)
          | (Some False, s5) \<Rightarrow> (False, sleep B d s5))"
proof (cases "0 \<le> retries - 2")
  case False
  then have "unmatchedThrough B page e1 e2 d 0 (retries - 2) s = None"
    by (simp add: unmatchedThrough.simps [of B page e1 e2 d 0 "retries - 2" s])
  moreover from False
  have "navCount page (snd (verifyDnsApplied_loop B page e1 e2 retries d 0 s)) = navCount page s"
    by (intro navCount_last) simp
  ultimately show ?thesis by (simp add: verifyDnsApplied_def)
next
  case True
  note through = loop_through [OF True refl, where B = B and page = page and ?e1.0 = e1
      and ?e2.0 = e2 and d = d and s = s]
  show ?thesis
  proof (cases "unmatchedThrough B page e1 e2 d 0 (retries - 2) s")
    case None
    with through show ?thesis by (simp add: verifyDnsApplied_def)
  next
    case (Some s3)
    let ?s4 = "snd (navigateToDns B page False s3)"
    from through Some
    have run: "verifyDnsApplied_loop B page e1 e2 retries d 0 s =
        verifyDnsApplied_loop B page e1 e2 retries d (retries - 1) ?s4"
      and n3: "navCount page s3 = navCount page s" by simp_all
    have "navCount page (snd (verifyDnsApplied_loop B page e1 e2 retries d (retries - 1) ?s4)) =
        navCount page ?s4"
      by (intro navCount_last) simp
    with n3 have n: "navCount page (snd (verifyDnsApplied B page e1 e2 retries d s)) =
        navCount page s + 1"
      by (simp add: verifyDnsApplied_def run)
    have "verifyDnsApplied B page e1 e2 retries d s =
         (case poll B page e1 e2 ?s4 of
            (None, s5) \<Rightarrow> (False, s5)
          | (Some True, s5) \<Rightarrow> (True, s5)
          | (Some False, s5) \<Rightarrow> (False, sleep B d s5))"
      by (simp add: verifyDnsApplied_def run last_retry)
    with n Some show ?thesis by simp
  qed
qed

lemma resetPage_frame:
  "fst (getContentFrame resetPage Page s) = Some (Frame 0) \<and>
   world (snd (getContentFrame resetPage Page s)) = world s"
  by (simp add: getContentFrame_def frameSelectors_def resetPage_def engine_defs)

lemma resetPage_poll:
  "fst (poll resetPage Page ''1.1.1.1'' ''1.0.0.1'' s) = Some (world s)"
proof -
  obtain f s1 where g: "getContentFrame resetPage Page s = (f, s1)"
    by (cases "getContentFrame resetPage Page s")
  with resetPage_frame [of s] have "f = Some (Frame 0)" "world s1 = world s" by simp_all
  with g show ?thesis
    by (simp add: poll_def readDnsValuesFromFrame_def resetPage_def caught_def)
qed

lemma resetPage_poll_world:
  "world (snd (poll resetPage Page ''1.1.1.1'' ''1.0.0.1'' s)) = world s"
proof -
  obtain f s1 where g: "getContentFrame resetPage Page s = (f, s1)"
    by (cases "getContentFrame resetPage Page s")
  with resetPage_frame [of s] have "f = Some (Frame 0)" "world s1 = world s" by simp_all
  with g show ?thesis
    by (simp add: poll_def readDnsValuesFromFrame_def resetPage_def caught_def perform_def)
qed

lemma resetPage_frameD:
  "getContentFrame resetPage Page s = (f, s1) \<Longrightarrow> f = Some (Frame 0) \<and> world s1 = world s"
  using resetPage_frame [of s] by simp

lemma resetPage_oracles:
  "e_query resetPage w c sel =
     (if sel = ''#addconfig'' then Resolved (Some 20)
      else if sel = ''#lanconfig'' then Resolved (Some 21)
      else if sel = ''#landhcp'' then Resolved (Some 22)
      else if sel = ''iframe#menuIframe'' then Resolved (Some 1)
      else Resolved None)"
  "e_step resetPage call w = (w \<or> call = Click 20 1)"
  "e_evalBool resetPage w c sc = Resolved False"
  by (simp_all add: resetPage_def)

lemma resetPage_navigate: "world (snd (navigateToDns resetPage Page False s))"
  by (auto simp: navigateToDns_def clickMenu_def engine_defs resetPage_oracles Let_def
      split: prod.splits option.splits dest!: resetPage_frameD)

lemma resetPage_unmatched:
  assumes "\<not> world s"
  shows "unmatchedThrough resetPage Page ''1.1.1.1'' ''1.0.0.1'' 800 0 2 s \<noteq> None"
proof -
  have step: "\<And>i k s. \<not> world s \<Longrightarrow> i \<le> k \<Longrightarrow>
      unmatchedThrough resetPage Page ''1.1.1.1'' ''1.0.0.1'' 800 i k s =
        (if i = k then Some (sleep resetPage 800 (snd (poll resetPage Page ''1.1.1.1'' ''1.0.0.1'' s)))
         else unmatchedThrough resetPage Page ''1.1.1.1'' ''1.0.0.1'' 800 (i + 1) k
                (sleep resetPage 800 (snd (poll resetPage Page ''1.1.1.1'' ''1.0.0.1'' s))))"
  proof -
    fix i k :: int and s :: "bool st"
    assume w: "\<not> world s" and le: "i \<le> k"
    obtain m s2 where p: "poll resetPage Page ''1.1.1.1'' ''1.0.0.1'' s = (m, s2)"
      by (cases "poll resetPage Page ''1.1.1.1'' ''1.0.0.1'' s")
    with resetPage_poll [of s] w have "m = Some False" by simp
    with p le show "unmatchedThrough resetPage Page ''1.1.1.1'' ''1.0.0.1'' 800 i k s =
        (if i = k then Some (sleep resetPage 800 (snd (poll resetPage Page ''1.1.1.1'' ''1.0.0.1'' s)))
         else unmatchedThrough resetPage Page ''1.1.1.1'' ''1.0.0.1'' 800 (i + 1) k
                (sleep resetPage 800 (snd (poll resetPage Page ''1.1.1.1'' ''1.0.0.1'' s))))"
      by (simp add: unmatchedThrough.simps [of resetPage Page "''1.1.1.1''" "''1.0.0.1''" 800 i k s])
  qed
  have keep: "\<And>s. \<not> world s \<Longrightarrow>
      \<not> world (sleep resetPage 800 (snd (poll resetPage Page ''1.1.1.1'' ''1.0.0.1'' s)))"
    by (simp add: sleep_def perform_def resetPage_poll_world) (simp add: resetPage_def)
  from assms show ?thesis
    by (simp add: step keep)
qed

theorem renavigation_once_witness:
  "unmatchedThrough resetPage Page ''1.1.1.1'' ''1.0.0.1'' 800 0 (4 - 2) afterSave \<noteq> None \<and>
   fst (verifyDnsApplied resetPage Page ''1.1.1.1'' ''1.0.0.1'' 4 800 afterSave) = True \<and>
   navCount Page (snd (verifyDnsApplied resetPage Page ''1.1.1.1'' ''1.0.0.1'' 4 800 afterSave)) = 1"
proof -
  have w: "\<not> world afterSave" by (simp add: afterSave_def)
  from resetPage_unmatched [OF w] obtain s3 where
    u: "unmatchedThrough resetPage Page ''1.1.1.1'' ''1.0.0.1'' 800 0 (4 - 2) afterSave = Some s3"
    by auto
  let ?p = "poll resetPage Page ''1.1.1.1'' ''1.0.0.1''
              (snd (navigateToDns resetPage Page False s3))"
  have "fst ?p = Some True" by (simp add: resetPage_poll resetPage_navigate)
  then obtain s5 where p: "?p = (Some True, s5)" by (cases ?p) simp
  have z: "navCount Page afterSave = 0" by (simp add: navCount_def afterSave_def)
  from renavigation_once [where B = resetPage and page = Page and ?e1.0 = "''1.1.1.1''"
      and ?e2.0 = "''1.0.0.1''" and d = 800 and retries = 4 and s = afterSave] u p z
  have "navCount Page (snd (verifyDnsApplied resetPage Page ''1.1.1.1'' ''1.0.0.1'' 4 800
          afterSave)) = 1"
    and "fst (verifyDnsApplied resetPage Page ''1.1.1.1'' ''1.0.0.1'' 4 800 afterSave) = True"
    by auto
  with u show ?thesis by simp
qed

end
